theory Spec2Isabelle
  imports Complex_Main
begin

section \<open>Numbers\<close>

text \<open>
  The program is TypeScript; every number is an IEEE double.  A number that may be
  NaN or an infinity has type \<open>jsnum\<close>; the fields of the input records are finite
  numbers and have type \<open>real\<close>.  The operations \<open>+\<close>, \<open>*\<close>, \<open>/\<close> of \<open>jsnum\<close> are exact on
  finite values and follow the doubles on the special values (zero is the positive
  zero); they serve where only the special values matter.  Where the rounding of
  doubles matters, it is written out: the fare is computed with the rounded
  operations of the section on double arithmetic, and the filter on the pickup
  distance takes the distance as the doubles give it.
\<close>

datatype jsnum = Fin real | PInf | NInf | NaN

instantiation jsnum :: "{zero, one, plus, minus, times, divide, abs, uminus}"
begin

definition zero_jsnum :: jsnum where
  "zero_jsnum = Fin 0"

definition one_jsnum :: jsnum where
  "one_jsnum = Fin 1"

fun uminus_jsnum :: "jsnum \<Rightarrow> jsnum" where
  "uminus_jsnum (Fin a) = Fin (- a)"
| "uminus_jsnum PInf = NInf"
| "uminus_jsnum NInf = PInf"
| "uminus_jsnum NaN = NaN"

fun plus_jsnum :: "jsnum \<Rightarrow> jsnum \<Rightarrow> jsnum" where
  "plus_jsnum (Fin a) (Fin b) = Fin (a + b)"
| "plus_jsnum NaN y = NaN"
| "plus_jsnum x NaN = NaN"
| "plus_jsnum PInf NInf = NaN"
| "plus_jsnum NInf PInf = NaN"
| "plus_jsnum PInf y = PInf"
| "plus_jsnum NInf y = NInf"
| "plus_jsnum x PInf = PInf"
| "plus_jsnum x NInf = NInf"

definition minus_jsnum :: "jsnum \<Rightarrow> jsnum \<Rightarrow> jsnum" where
  "minus_jsnum x y = x + (- y)"

fun times_jsnum :: "jsnum \<Rightarrow> jsnum \<Rightarrow> jsnum" where
  "times_jsnum (Fin a) (Fin b) = Fin (a * b)"
| "times_jsnum NaN y = NaN"
| "times_jsnum x NaN = NaN"
| "times_jsnum PInf (Fin b) = (if b = 0 then NaN else if 0 < b then PInf else NInf)"
| "times_jsnum NInf (Fin b) = (if b = 0 then NaN else if 0 < b then NInf else PInf)"
| "times_jsnum (Fin a) PInf = (if a = 0 then NaN else if 0 < a then PInf else NInf)"
| "times_jsnum (Fin a) NInf = (if a = 0 then NaN else if 0 < a then NInf else PInf)"
| "times_jsnum PInf PInf = PInf"
| "times_jsnum PInf NInf = NInf"
| "times_jsnum NInf PInf = NInf"
| "times_jsnum NInf NInf = PInf"

fun divide_jsnum :: "jsnum \<Rightarrow> jsnum \<Rightarrow> jsnum" where
  "divide_jsnum (Fin a) (Fin b) =
     (if b \<noteq> 0 then Fin (a / b)
      else if a = 0 then NaN
      else if 0 < a then PInf else NInf)"
| "divide_jsnum NaN y = NaN"
| "divide_jsnum x NaN = NaN"
| "divide_jsnum (Fin a) PInf = Fin 0"
| "divide_jsnum (Fin a) NInf = Fin 0"
| "divide_jsnum PInf (Fin b) = (if 0 \<le> b then PInf else NInf)"
| "divide_jsnum NInf (Fin b) = (if 0 \<le> b then NInf else PInf)"
| "divide_jsnum PInf y = NaN"
| "divide_jsnum NInf y = NaN"

fun abs_jsnum :: "jsnum \<Rightarrow> jsnum" where
  "abs_jsnum (Fin a) = Fin \<bar>a\<bar>"
| "abs_jsnum PInf = PInf"
| "abs_jsnum NInf = PInf"
| "abs_jsnum NaN = NaN"

instance ..

end

instantiation jsnum :: inverse
begin

definition inverse_jsnum :: "jsnum \<Rightarrow> jsnum" where
  "inverse_jsnum x = divide (Fin 1) x"

instance ..

end

text \<open>Literals: \<open>100\<close>, \<open>0.25\<close> and so on denote the finite number of that value.\<close>

instance jsnum :: numeral
proof
  fix a b c :: jsnum
  show "a + b + c = a + (b + c)"
    by (cases a; cases b; cases c) simp_all
qed

instance jsnum :: power ..

text \<open>Comparisons: every comparison with NaN is false.\<close>

fun js_lt :: "jsnum \<Rightarrow> jsnum \<Rightarrow> bool" where
  "js_lt (Fin a) (Fin b) = (a < b)"
| "js_lt NaN y = False"
| "js_lt x NaN = False"
| "js_lt PInf y = False"
| "js_lt x NInf = False"
| "js_lt NInf y = True"
| "js_lt x PInf = True"

definition js_gt :: "jsnum \<Rightarrow> jsnum \<Rightarrow> bool" where
  "js_gt x y = js_lt y x"

definition js_ge :: "jsnum \<Rightarrow> jsnum \<Rightarrow> bool" where
  "js_ge x y = (x \<noteq> NaN \<and> y \<noteq> NaN \<and> \<not> js_lt x y)"

text \<open>\<open>Math.max\<close> and \<open>Math.min\<close>: NaN as soon as one argument is NaN.\<close>

definition Math_max :: "jsnum \<Rightarrow> jsnum \<Rightarrow> jsnum" where
  "Math_max x y = (if x = NaN \<or> y = NaN then NaN else if js_lt x y then y else x)"

definition Math_min :: "jsnum \<Rightarrow> jsnum \<Rightarrow> jsnum" where
  "Math_min x y = (if x = NaN \<or> y = NaN then NaN else if js_lt y x then y else x)"

text \<open>\<open>x || 0\<close> on a number: NaN and zero are falsy.\<close>

definition or_zero :: "jsnum \<Rightarrow> jsnum" where
  "or_zero x = (if x = NaN \<or> x = Fin 0 then Fin 0 else x)"

text \<open>\<open>xs.length\<close> as a number.\<close>

definition len :: "'a list \<Rightarrow> jsnum" where
  "len xs = Fin (real (length xs))"

section \<open>Double arithmetic\<close>

text \<open>
  \<open>fl x\<close> is the double nearest to the real \<open>x\<close>: the significand has 53 bits, a tie
  goes to the even significand, the numbers below \<open>2^-1022\<close> share the spacing
  \<open>2^-1074\<close>, and from \<open>2^1024 - 2^970\<close> on the result is an infinity.  A literal of
  the program denotes \<open>fl\<close> of its decimal; a sum or a product of two doubles is the
  exact result, rounded.
\<close>

definition pow2 :: "int \<Rightarrow> real" where
  "pow2 e = (if 0 \<le> e then 2 ^ nat e else 1 / 2 ^ nat (- e))"

definition round_even :: "real \<Rightarrow> int" where
  "round_even y =
     (let n = \<lfloor>y\<rfloor>; r = y - real_of_int n
      in if r < 1 / 2 then n else if 1 / 2 < r then n + 1 else if even n then n else n + 1)"

definition binade :: "real \<Rightarrow> int" where
  "binade x = max \<lfloor>log 2 \<bar>x\<bar>\<rfloor> (- 1022)"

definition fl :: "real \<Rightarrow> jsnum" where
  "fl x =
     (if 2 ^ 1024 - 2 ^ 970 \<le> \<bar>x\<bar> then (if 0 < x then PInf else NInf)
      else Fin (real_of_int (round_even (x / pow2 (binade x - 52))) * pow2 (binade x - 52)))"

definition fadd :: "jsnum \<Rightarrow> jsnum \<Rightarrow> jsnum" where
  "fadd x y = (case x + y of Fin s \<Rightarrow> fl s | other \<Rightarrow> other)"

definition fmul :: "jsnum \<Rightarrow> jsnum \<Rightarrow> jsnum" where
  "fmul x y = (case x * y of Fin s \<Rightarrow> fl s | other \<Rightarrow> other)"

definition fsub :: "jsnum \<Rightarrow> jsnum \<Rightarrow> jsnum" where
  "fsub x y = (case x - y of Fin s \<Rightarrow> fl s | other \<Rightarrow> other)"

definition fdiv :: "jsnum \<Rightarrow> jsnum \<Rightarrow> jsnum" where
  "fdiv x y = (case x / y of Fin s \<Rightarrow> fl s | other \<Rightarrow> other)"

section \<open>Geo math (algorithms/astar)\<close>

record Location =
  lat :: real
  lng :: real

definition EARTH_RADIUS_KM :: real where
  "EARTH_RADIUS_KM = 6371"

definition toRadians :: "real \<Rightarrow> real" where
  "toRadians degrees = degrees * (pi / 180)"

text \<open>\<open>Math.atan2 y x\<close>, the angle of the point \<open>(x, y)\<close> in \<open>(-pi, pi]\<close>.\<close>

definition atan2 :: "real \<Rightarrow> real \<Rightarrow> real" where
  "atan2 y x =
     (if 0 < x then arctan (y / x)
      else if x < 0 then (if 0 \<le> y then arctan (y / x) + pi else arctan (y / x) - pi)
      else if 0 < y then pi / 2
      else if y < 0 then - (pi / 2)
      else 0)"

definition haversineDistance :: "Location \<Rightarrow> Location \<Rightarrow> real" where
  "haversineDistance loc1 loc2 =
     (let dLat = toRadians (lat loc2 - lat loc1);
          dLng = toRadians (lng loc2 - lng loc1);
          a = sin (dLat / 2) * sin (dLat / 2) +
              cos (toRadians (lat loc1)) *
              cos (toRadians (lat loc2)) *
              sin (dLng / 2) * sin (dLng / 2);
          c = 2 * atan2 (sqrt a) (sqrt (1 - a))
      in EARTH_RADIUS_KM * c)"

section \<open>Pricing (algorithms/astar)\<close>







section \<open>Sorting with a comparator\<close>

text \<open>
  \<open>xs.sort(cmp)\<close> is a stable sort: \<open>a\<close> goes after \<open>b\<close> when \<open>cmp(a, b) > 0\<close>, and a
  comparator result that is NaN counts as zero.  (For a comparator that is not a
  consistent order the language leaves the result to the implementation; this
  is the insertion order then.)
\<close>

fun insert_by :: "('a \<Rightarrow> 'a \<Rightarrow> jsnum) \<Rightarrow> 'a \<Rightarrow> 'a list \<Rightarrow> 'a list" where
  "insert_by cmp x [] = [x]"
| "insert_by cmp x (y # ys) =
     (if js_gt (cmp x y) 0 then y # insert_by cmp x ys else x # y # ys)"

definition Array_sort :: "('a \<Rightarrow> 'a \<Rightarrow> jsnum) \<Rightarrow> 'a list \<Rightarrow> 'a list" where
  "Array_sort cmp xs = foldr (insert_by cmp) xs []"

section \<open>Recommendation data model (algorithms/recommendations)\<close>

datatype TimeOfDay = morning | afternoon | evening | night

datatype ConversationLevel = quiet | moderate | chatty

text \<open>A \<open>Date\<close> object, by what the program reads from it.\<close>

record Date =
  getTime :: int
  getHours :: nat
  getDay :: nat

record RideHistory =
  pickup :: Location
  dropoff :: Location
  timestamp :: Date
  price :: real
  vehicleType :: string
  rating :: real
  timeOfDay :: TimeOfDay
  dayOfWeek :: nat

record UserPreferences =
  preferredVehicleTypes :: "string list"
  maxPrice :: real
  preferredDriverRatings :: real
  smokingPreference :: bool
  musicPreference :: bool
  conversationPreference :: ConversationLevel

text \<open>
  A profile holds its preferences object by reference.  The functions that only
  read a profile take it with the object in place (\<open>'p = UserPreferences\<close>); the
  one function that writes takes the reference (\<open>'p = ref\<close>) and a store.
\<close>

record 'p UserProfile =
  id' :: string
  rideHistory :: "RideHistory list"
  preferences :: 'p
  ratings :: "real list"
  frequentLocations :: "Location list"

record DriverPreferences =
  smokingAllowed :: bool
  musicPlaying :: bool
  conversationLevel :: ConversationLevel

record Driver =
  id' :: string
  rating :: real
  totalRides :: real
  vehicleType :: string
  preferences :: DriverPreferences
  rideHistory :: "RideHistory list"

record Ride =
  id' :: string
  driver :: Driver
  pickup_lat :: real
  pickup_lng :: real
  dropoff_lat :: real
  dropoff_lng :: real
  price :: real
  vehicle_type :: string
  distance_km :: real
  estimated_duration_min :: real

type_synonym profile = "UserPreferences UserProfile"

section \<open>Deductive filtering\<close>

text \<open>
  The filter with the pickup distance as an exact number; the recommender is stated
  over it.  The next section has the filter with the distance in doubles.
\<close>

definition deductiveFiltering ::
  "Ride list \<Rightarrow> profile \<Rightarrow> Location \<Rightarrow> Location \<Rightarrow> Ride list" where
  "deductiveFiltering rides userProfile userLocation destination =
     filter (\<lambda>ride.
       if Ride.price ride > maxPrice (UserProfile.preferences userProfile) then False
       else if Driver.rating (Ride.driver ride)
               < preferredDriverRatings (UserProfile.preferences userProfile) then False
       else if length (preferredVehicleTypes (UserProfile.preferences userProfile)) > 0 \<and>
               Ride.vehicle_type ride
                 \<notin> set (preferredVehicleTypes (UserProfile.preferences userProfile)) then False
       else if smokingPreference (UserProfile.preferences userProfile)
               \<noteq> smokingAllowed (Driver.preferences (Ride.driver ride)) then False
       else
         (let pickupDistance =
                haversineDistance userLocation
                  \<lparr>lat = Ride.pickup_lat ride, lng = Ride.pickup_lng ride\<rparr>
          in if pickupDistance > 5 then False else True)) rides"

section \<open>The distance rule in doubles\<close>

text \<open>
  The distance as the program computes it.  \<open>Math.PI\<close> is the double nearest to \<open>pi\<close>.
  \<open>Math.sqrt\<close> is the rounded square root, NaN below zero.  The language leaves the
  sine, the cosine and the arc tangent to the implementation, which approximates them:
  \<open>libm\<close> holds the doubles that it returns.  They are NaN at NaN, the sine and the
  cosine also at the infinities.
\<close>

definition Math_PI :: real where
  "Math_PI = 884279719003555 / 2 ^ 48"

definition Math_sqrt :: "jsnum \<Rightarrow> jsnum" where
  "Math_sqrt x =
     (case x of
        Fin s \<Rightarrow> if s < 0 then NaN else fl (sqrt s)
      | PInf \<Rightarrow> PInf
      | other \<Rightarrow> NaN)"

record libm =
  sin_impl :: "real \<Rightarrow> real"
  cos_impl :: "real \<Rightarrow> real"
  atan2_impl :: "jsnum \<Rightarrow> jsnum \<Rightarrow> jsnum"

definition Math_sin :: "libm \<Rightarrow> jsnum \<Rightarrow> jsnum" where
  "Math_sin m x = (case x of Fin s \<Rightarrow> Fin (sin_impl m s) | other \<Rightarrow> NaN)"

definition Math_cos :: "libm \<Rightarrow> jsnum \<Rightarrow> jsnum" where
  "Math_cos m x = (case x of Fin s \<Rightarrow> Fin (cos_impl m s) | other \<Rightarrow> NaN)"

definition Math_atan2 :: "libm \<Rightarrow> jsnum \<Rightarrow> jsnum \<Rightarrow> jsnum" where
  "Math_atan2 m y x = (if y = NaN \<or> x = NaN then NaN else atan2_impl m y x)"

text \<open>
  A math library that returns the double nearest to the exact value.  \<open>atan2_exact\<close>
  is the angle that the language assigns to finite and infinite arguments.
\<close>

fun atan2_exact :: "jsnum \<Rightarrow> jsnum \<Rightarrow> real" where
  "atan2_exact (Fin y) (Fin x) = atan2 y x"
| "atan2_exact (Fin y) PInf = 0"
| "atan2_exact (Fin y) NInf = (if 0 \<le> y then pi else - pi)"
| "atan2_exact PInf (Fin x) = pi / 2"
| "atan2_exact NInf (Fin x) = - (pi / 2)"
| "atan2_exact PInf PInf = pi / 4"
| "atan2_exact PInf NInf = 3 * pi / 4"
| "atan2_exact NInf PInf = - (pi / 4)"
| "atan2_exact NInf NInf = - (3 * pi / 4)"
| "atan2_exact y x = 0"

definition finite_value :: "jsnum \<Rightarrow> real" where
  "finite_value v = (case v of Fin r \<Rightarrow> r | other \<Rightarrow> 0)"

definition nearest_libm :: libm where
  "nearest_libm =
     \<lparr>sin_impl = (\<lambda>x. finite_value (fl (sin x))),
      cos_impl = (\<lambda>x. finite_value (fl (cos x))),
      atan2_impl = (\<lambda>y x. fl (atan2_exact y x))\<rparr>"

definition toRadians_js :: "jsnum \<Rightarrow> jsnum" where
  "toRadians_js degrees = fmul degrees (fdiv (Fin Math_PI) (Fin 180))"

text \<open>The constant \<open>a\<close> of \<open>haversineDistance\<close>, and the distance.\<close>

definition haversine_a :: "libm \<Rightarrow> Location \<Rightarrow> Location \<Rightarrow> jsnum" where
  "haversine_a m loc1 loc2 =
     (let dLat = toRadians_js (fsub (Fin (lat loc2)) (Fin (lat loc1)));
          dLng = toRadians_js (fsub (Fin (lng loc2)) (Fin (lng loc1)))
      in fadd (fmul (Math_sin m (fdiv dLat (Fin 2))) (Math_sin m (fdiv dLat (Fin 2))))
              (fmul (fmul (fmul (Math_cos m (toRadians_js (Fin (lat loc1))))
                                (Math_cos m (toRadians_js (Fin (lat loc2)))))
                          (Math_sin m (fdiv dLng (Fin 2))))
                    (Math_sin m (fdiv dLng (Fin 2)))))"

definition haversineDistance_js :: "libm \<Rightarrow> Location \<Rightarrow> Location \<Rightarrow> jsnum" where
  "haversineDistance_js m loc1 loc2 =
     (let a = haversine_a m loc1 loc2;
          c = fmul (Fin 2) (Math_atan2 m (Math_sqrt a) (Math_sqrt (fsub (Fin 1) a)))
      in fmul (Fin EARTH_RADIUS_KM) c)"

text \<open>The deductive filter with the distance in doubles.\<close>

definition deductiveFiltering_js ::
  "libm \<Rightarrow> Ride list \<Rightarrow> profile \<Rightarrow> Location \<Rightarrow> Location \<Rightarrow> Ride list" where
  "deductiveFiltering_js m rides userProfile userLocation destination =
     filter (\<lambda>ride.
       if Ride.price ride > maxPrice (UserProfile.preferences userProfile) then False
       else if Driver.rating (Ride.driver ride)
               < preferredDriverRatings (UserProfile.preferences userProfile) then False
       else if length (preferredVehicleTypes (UserProfile.preferences userProfile)) > 0 \<and>
               Ride.vehicle_type ride
                 \<notin> set (preferredVehicleTypes (UserProfile.preferences userProfile)) then False
       else if smokingPreference (UserProfile.preferences userProfile)
               \<noteq> smokingAllowed (Driver.preferences (Ride.driver ride)) then False
       else
         (let pickupDistance =
                haversineDistance_js m userLocation
                  \<lparr>lat = Ride.pickup_lat ride, lng = Ride.pickup_lng ride\<rparr>
          in if js_gt pickupDistance 5 then False else True)) rides"

section \<open>Pattern helpers\<close>

definition getTimeOfDay :: "nat \<Rightarrow> TimeOfDay" where
  "getTimeOfDay hour =
     (if hour \<ge> 5 \<and> hour < 12 then morning
      else if hour \<ge> 12 \<and> hour < 17 then afternoon
      else if hour \<ge> 17 \<and> hour < 22 then evening
      else night)"

definition calculateRouteSimilarity ::
  "Location \<Rightarrow> Location \<Rightarrow> RideHistory list \<Rightarrow> jsnum" where
  "calculateRouteSimilarity pickupLoc dropoffLoc history =
     (if length history = 0 then 0
      else
        (let similarRoutes =
               filter (\<lambda>ride.
                 let pickupDist = haversineDistance pickupLoc (pickup ride);
                     dropoffDist = haversineDistance dropoffLoc (dropoff ride)
                 in pickupDist < 1 \<and> dropoffDist < 1) history;
             avgRating =
               or_zero (Fin (foldl (\<lambda>sum r. sum + RideHistory.rating r) 0 similarRoutes)
                          / len similarRoutes)
         in (len similarRoutes / len history) * (avgRating / 5)))"

definition calculateTimePreference ::
  "nat \<Rightarrow> string \<Rightarrow> RideHistory list \<Rightarrow> jsnum" where
  "calculateTimePreference currentHour vehicleTypeArg history =
     (let timeOfDayNow = getTimeOfDay currentHour;
          relevantRides =
            filter (\<lambda>h. timeOfDay h = timeOfDayNow \<and>
                         RideHistory.vehicleType h = vehicleTypeArg) history
      in if length relevantRides = 0 then 0.5
         else
           (let avgRating =
                  Fin (foldl (\<lambda>sum r. sum + RideHistory.rating r) 0 relevantRides)
                    / len relevantRides
            in avgRating / 5))"

definition inferPriceSensitivity :: "real \<Rightarrow> RideHistory list \<Rightarrow> jsnum" where
  "inferPriceSensitivity priceArg history =
     (if length history = 0 then 0.5
      else
        (let avgPrice =
               Fin (foldl (\<lambda>sum h. sum + RideHistory.price h) 0 history) / len history;
             priceDiff = \<bar>Fin priceArg - avgPrice\<bar> / avgPrice
         in Math_max 0 (1 - priceDiff)))"

definition predictDriverCompatibility :: "Driver \<Rightarrow> profile \<Rightarrow> jsnum" where
  "predictDriverCompatibility driverArg userProfile =
     (let score0 = 0;
          score1 = score0 + (Fin (Driver.rating driverArg) / 5) * 40;
          experienceScore = Math_min 1 (Fin (totalRides driverArg) / 100) * 30;
          score2 = score1 + experienceScore;
          score3 =
            (if conversationLevel (Driver.preferences driverArg)
                = conversationPreference (UserProfile.preferences userProfile)
             then score2 + 30 else score2 + 15)
      in score3)"

definition calculateProximityPreference ::
  "Location \<Rightarrow> Location \<Rightarrow> RideHistory list \<Rightarrow> jsnum" where
  "calculateProximityPreference currentLocation pickupLocation history =
     (let distance = Fin (haversineDistance currentLocation pickupLocation)
      in if length history = 0 then Math_max 0 (1 - distance / 5)
         else
           (let avgPickupDistance =
                  Fin (foldl (\<lambda>sum h. sum + haversineDistance (pickup h) currentLocation)
                         0 history) / len history;
                similarityToHistory = 1 - \<bar>distance - avgPickupDistance\<bar> / 5
            in Math_max 0 similarityToHistory))"

section \<open>Inductive scoring\<close>

text \<open>\<open>now\<close> is the \<open>new Date()\<close> that the function creates.\<close>

definition inductiveScoring ::
  "Ride \<Rightarrow> profile \<Rightarrow> Location \<Rightarrow> Location \<Rightarrow> Date \<Rightarrow> jsnum" where
  "inductiveScoring ride userProfile userLocation destination now =
     (let score0 = 0;
          routeSimilarityScore =
            calculateRouteSimilarity
              \<lparr>lat = Ride.pickup_lat ride, lng = Ride.pickup_lng ride\<rparr>
              \<lparr>lat = Ride.dropoff_lat ride, lng = Ride.dropoff_lng ride\<rparr>
              (UserProfile.rideHistory userProfile);
          score1 = score0 + routeSimilarityScore * 30;
          currentHour = getHours now;
          timePreferenceScore =
            calculateTimePreference currentHour (Ride.vehicle_type ride)
              (UserProfile.rideHistory userProfile);
          score2 = score1 + timePreferenceScore * 20;
          pricePattern =
            inferPriceSensitivity (Ride.price ride) (UserProfile.rideHistory userProfile);
          score3 = score2 + pricePattern * 15;
          driverCompatibilityScore = predictDriverCompatibility (Ride.driver ride) userProfile;
          score4 = score3 + driverCompatibilityScore * 25;
          proximityScore =
            calculateProximityPreference userLocation
              \<lparr>lat = Ride.pickup_lat ride, lng = Ride.pickup_lng ride\<rparr>
              (UserProfile.rideHistory userProfile);
          score5 = score4 + proximityScore * 10
      in Math_min 100 (Math_max 0 score5))"

section \<open>Collaborative filtering\<close>

definition calculateUserSimilarity :: "profile \<Rightarrow> profile \<Rightarrow> jsnum" where
  "calculateUserSimilarity user1 user2 =
     (let score0 = 0;
          commonVehicles =
            length (filter (\<lambda>v. v \<in> set (preferredVehicleTypes (UserProfile.preferences user2)))
                      (preferredVehicleTypes (UserProfile.preferences user1)));
          score1 = score0 +
            (Fin (real commonVehicles)
               / Math_max (len (preferredVehicleTypes (UserProfile.preferences user1))) 1) * 0.3;
          priceDiff =
            Fin \<bar>maxPrice (UserProfile.preferences user1)
                 - maxPrice (UserProfile.preferences user2)\<bar>;
          score2 = score1 +
            Math_max 0 (1 - priceDiff / Fin (maxPrice (UserProfile.preferences user1))) * 0.3;
          score3 =
            (if smokingPreference (UserProfile.preferences user1)
                = smokingPreference (UserProfile.preferences user2)
             then score2 + 0.2 else score2);
          score4 =
            (if conversationPreference (UserProfile.preferences user1)
                = conversationPreference (UserProfile.preferences user2)
             then score3 + 0.2 else score3)
      in score4)"

record SimilarUser =
  user :: profile
  similarity :: jsnum

definition findSimilarUsers :: "profile \<Rightarrow> profile list \<Rightarrow> SimilarUser list" where
  "findSimilarUsers userProfile allUsers =
     take 10
       (Array_sort (\<lambda>a b. similarity b - similarity a)
          (filter (\<lambda>su. js_gt (similarity su) 0.5)
             (map (\<lambda>u. \<lparr>user = u, similarity = calculateUserSimilarity userProfile u\<rparr>)
                (filter (\<lambda>u. UserProfile.id' u \<noteq> UserProfile.id' userProfile \<and>
                               length (UserProfile.rideHistory u) > 0) allUsers))))"

definition collaborativeFiltering :: "Ride \<Rightarrow> profile \<Rightarrow> profile list \<Rightarrow> jsnum" where
  "collaborativeFiltering ride userProfile allUsers =
     (let similarUsers = findSimilarUsers userProfile allUsers
      in if length similarUsers = 0 then 50
         else
           (let (totalScore, weightSum) =
                  foldl (\<lambda>(totalScore, weightSum) su.
                    let userLikedSimilarRides =
                          length (filter (\<lambda>history.
                            RideHistory.vehicleType history = Ride.vehicle_type ride \<and>
                            RideHistory.rating history \<ge> 4 \<and>
                            \<bar>RideHistory.price history - Ride.price ride\<bar>
                              < Ride.price ride * 0.2)
                            (UserProfile.rideHistory (user su)));
                        likeScore =
                          (Fin (real userLikedSimilarRides)
                             / len (UserProfile.rideHistory (user su))) * 100
                    in (totalScore + likeScore * similarity su, weightSum + similarity su))
                    (0, 0) similarUsers
            in if js_gt weightSum 0 then totalScore / weightSum else 50))"

section \<open>Content-based filtering\<close>

definition contentBasedFiltering :: "Ride \<Rightarrow> profile \<Rightarrow> jsnum" where
  "contentBasedFiltering ride userProfile =
     (if length (UserProfile.rideHistory userProfile) = 0 then 50
      else
        (let score0 = 0;
             w_vehicleType = 0.3;
             w_priceRange = 0.25;
             w_distance = 0.2;
             w_rating = 0.25;
             vehicleTypeMatches =
               length (filter (\<lambda>h. RideHistory.vehicleType h = Ride.vehicle_type ride \<and>
                                    RideHistory.rating h \<ge> 4)
                         (UserProfile.rideHistory userProfile));
             score1 = score0 +
               (Fin (real vehicleTypeMatches) / len (UserProfile.rideHistory userProfile))
                 * 100 * w_vehicleType;
             avgPrice =
               Fin (foldl (\<lambda>sum h. sum + RideHistory.price h) 0
                      (UserProfile.rideHistory userProfile))
                 / len (UserProfile.rideHistory userProfile);
             priceDiff = \<bar>Fin (Ride.price ride) - avgPrice\<bar> / avgPrice;
             score2 = score1 + Math_max 0 ((1 - priceDiff) * 100) * w_priceRange;
             avgDistance =
               Fin (foldl (\<lambda>sum h.
                      let dist = haversineDistance (pickup h) (dropoff h) in sum + dist) 0
                      (UserProfile.rideHistory userProfile))
                 / len (UserProfile.rideHistory userProfile);
             distDiff = \<bar>Fin (Ride.distance_km ride) - avgDistance\<bar> / avgDistance;
             score3 = score2 + Math_max 0 ((1 - distDiff) * 100) * w_distance;
             avgPreferredRating =
               Fin (foldl (\<lambda>a b. a + b) 0 (ratings userProfile))
                 / len (ratings userProfile);
             ratingAlignment = (Fin (Driver.rating (Ride.driver ride)) / avgPreferredRating) * 100;
             score4 = score3 + Math_min 100 ratingAlignment * w_rating
         in Math_min 100 score4))"

section \<open>Hybrid recommendation\<close>

text \<open>
  The lines of the reasoning trail.  A line that the program builds as
  \<open>`Pattern Analysis: ${x.toFixed(1)}/100`\<close> is kept as its label and the number
  \<open>x\<close> that it prints; the three verdict lines are constants.
\<close>

datatype ReasoningLine =
    Pattern_Analysis jsnum
  | Personal_History_Match jsnum
  | Similar_Users_Preference jsnum
  | Highly_Recommended
  | Good_Match
  | Average_Match

record ScoredRide = Ride +
  recommendationScore :: jsnum
  reasoning :: "ReasoningLine list"

text \<open>The callback of \<open>filteredRides.map\<close>; \<open>allUsers\<close> is \<open>None\<close> when the argument is left out.\<close>

definition scoreRide ::
  "profile \<Rightarrow> Location \<Rightarrow> Location \<Rightarrow> profile list option \<Rightarrow> Date \<Rightarrow> Ride \<Rightarrow> ScoredRide" where
  "scoreRide userProfile userLocation destination allUsers now ride =
     (let reasoning0 = [];
          inductiveScore = inductiveScoring ride userProfile userLocation destination now;
          reasoning1 = reasoning0 @ [Pattern_Analysis inductiveScore];
          contentScore = contentBasedFiltering ride userProfile;
          reasoning2 = reasoning1 @ [Personal_History_Match contentScore];
          (collaborativeScore, reasoning3) =
            (case allUsers of
               None \<Rightarrow> (50, reasoning2)
             | Some users \<Rightarrow>
                 if length users > 0
                 then (let c = collaborativeFiltering ride userProfile users
                       in (c, reasoning2 @ [Similar_Users_Preference c]))
                 else (50, reasoning2));
          finalScore = inductiveScore * 0.4 + contentScore * 0.35 + collaborativeScore * 0.25;
          reasoning4 =
            (if js_ge finalScore 80 then reasoning3 @ [Highly_Recommended]
             else if js_ge finalScore 60 then reasoning3 @ [Good_Match]
             else reasoning3 @ [Average_Match])
      in Ride.extend ride \<lparr>recommendationScore = finalScore, reasoning = reasoning4\<rparr>)"

definition hybridRecommendation ::
  "Ride list \<Rightarrow> profile \<Rightarrow> Location \<Rightarrow> Location \<Rightarrow> profile list option \<Rightarrow> Date
     \<Rightarrow> ScoredRide list" where
  "hybridRecommendation rides userProfile userLocation destination allUsers now =
     (let filteredRides = deductiveFiltering rides userProfile userLocation destination;
          scoredRides =
            map (scoreRide userProfile userLocation destination allUsers now) filteredRides
      in Array_sort (\<lambda>a b. recommendationScore b - recommendationScore a) scoredRides)"

section \<open>Profile update\<close>

text \<open>
  The store of preferences objects.  Every reference denotes an object, as the
  type \<open>UserProfile\<close> of the program promises.  \<open>readProfile\<close> is what a reader of
  the profile sees in a given store.
\<close>

type_synonym ref = nat

type_synonym store = "ref \<Rightarrow> UserPreferences"

definition readProfile :: "store \<Rightarrow> ref UserProfile \<Rightarrow> profile" where
  "readProfile st p =
     \<lparr>UserProfile.id' = UserProfile.id' p,
      UserProfile.rideHistory = UserProfile.rideHistory p,
      UserProfile.preferences = st (UserProfile.preferences p),
      ratings = ratings p,
      frequentLocations = frequentLocations p\<rparr>"

text \<open>
  \<open>preferredVehicleTypes.push(v)\<close> writes into the object that the profile refers
  to; the spread \<open>{...userProfile, rideHistory: .., ratings: ..}\<close> makes a new
  profile that refers to the same preferences object.
\<close>

definition updateUserProfile ::
  "store \<Rightarrow> ref UserProfile \<Rightarrow> Ride \<Rightarrow> real \<Rightarrow> bool \<Rightarrow> Date \<Rightarrow> store \<times> ref UserProfile" where
  "updateUserProfile st userProfile ride ratingArg accepted now =
     (let newHistory =
            \<lparr>pickup = \<lparr>lat = Ride.pickup_lat ride, lng = Ride.pickup_lng ride\<rparr>,
             dropoff = \<lparr>lat = Ride.dropoff_lat ride, lng = Ride.dropoff_lng ride\<rparr>,
             timestamp = now,
             RideHistory.price = Ride.price ride,
             RideHistory.vehicleType = Ride.vehicle_type ride,
             RideHistory.rating = ratingArg,
             timeOfDay = getTimeOfDay (getHours now),
             dayOfWeek = getDay now\<rparr>;
          prefs = UserProfile.preferences userProfile;
          st' =
            (if accepted \<and> ratingArg \<ge> 4 then
               (if Ride.vehicle_type ride \<notin> set (preferredVehicleTypes (st prefs))
                then st(prefs := (st prefs)
                       \<lparr>preferredVehicleTypes :=
                          preferredVehicleTypes (st prefs) @ [Ride.vehicle_type ride]\<rparr>)
                else st)
             else st)
      in (st',
          userProfile
            \<lparr>UserProfile.rideHistory := UserProfile.rideHistory userProfile @ [newHistory],
             ratings := ratings userProfile @ [ratingArg]\<rparr>))"

section \<open>Fallback pathfinder (algorithms/astar)\<close>

datatype PathNode =
  PathNode (location: Location) (g: real) (h: real) (f: real) (parent: "PathNode option")

record PathResult =
  path :: "Location list"
  totalDistance :: real

definition generateNeighbors :: "Location \<Rightarrow> Location \<Rightarrow> Location list" where
  "generateNeighbors current goal =
     (let step = 0.01;
          directionLat = (if lat goal > lat current then 1 else - 1);
          directionLng = (if lng goal > lng current then 1 else - 1)
      in [\<lparr>lat = lat current + step * directionLat, lng = lng current\<rparr>,
          \<lparr>lat = lat current, lng = lng current + step * directionLng\<rparr>,
          \<lparr>lat = lat current + step * directionLat,
           lng = lng current + step * directionLng\<rparr>])"

text \<open>The test that both membership scans use: the node is at \<open>neighborLoc\<close>, up to \<open>0.0001\<close> degrees.\<close>

definition sameSpot :: "Location \<Rightarrow> PathNode \<Rightarrow> bool" where
  "sameSpot neighborLoc n =
     (\<bar>lat (location n) - lat neighborLoc\<bar> < 0.0001 \<and>
      \<bar>lng (location n) - lng neighborLoc\<bar> < 0.0001)"

text \<open>\<open>while (node) { path.push(node.location); node = node.parent }\<close>\<close>

fun walkParents :: "PathNode \<Rightarrow> Location list" where
  "walkParents (PathNode loc gv hv fv par) =
     loc # (case par of None \<Rightarrow> [] | Some p \<Rightarrow> walkParents p)"

text \<open>
  The body of \<open>for (const neighborLoc of neighbors)\<close>: it returns the open set after the
  iteration.  \<open>openSet.indexOf(existingNode)\<close> is the position of the first node that
  passes the test, which is the node that \<open>find\<close> returned.
\<close>

definition visitNeighbor ::
  "PathNode \<Rightarrow> Location \<Rightarrow> PathNode list \<Rightarrow> PathNode list \<Rightarrow> Location \<Rightarrow> PathNode list" where
  "visitNeighbor current segmentEnd closedSet openSet neighborLoc =
     (if list_ex (sameSpot neighborLoc) closedSet then openSet
      else
        (let gScore = g current + haversineDistance (location current) neighborLoc;
             hScore = haversineDistance neighborLoc segmentEnd;
             existingNode = find (sameSpot neighborLoc) openSet;
             neighborNode = PathNode neighborLoc gScore hScore (gScore + hScore) (Some current)
         in case existingNode of
              Some e \<Rightarrow>
                if gScore \<ge> g e then openSet
                else openSet[length (takeWhile (\<lambda>n. \<not> sameSpot neighborLoc n) openSet)
                               := neighborNode]
            | None \<Rightarrow> openSet @ [neighborNode]))"

text \<open>
  One round of \<open>while (openSet.length > 0)\<close>, entered with a non-empty open set, and
  how it ends: at a \<open>break\<close>, with the two variables \<open>path\<close> and \<open>totalDistance\<close> as
  the round leaves them; at the end of the body, with the new open and closed sets;
  or with \<open>Throw\<close>, if \<open>openSet.shift()\<close> had nothing to give (the program would throw
  on \<open>current.location\<close>).
\<close>

datatype Round =
    Break "Location list \<times> real"
  | Again "PathNode list" "PathNode list"
  | Throw

definition whileBody ::
  "Location \<Rightarrow> Location \<Rightarrow> PathNode list \<Rightarrow> PathNode list \<Rightarrow> Location list \<Rightarrow> real \<Rightarrow> Round"
  where
  "whileBody segmentStart segmentEnd openSet closedSet pathAcc totalAcc =
     (case Array_sort (\<lambda>a b. Fin (f a - f b)) openSet of
        [] \<Rightarrow> Throw
      | current # openSet1 \<Rightarrow>
          if haversineDistance (location current) segmentEnd < 0.1
          then Break (pathAcc @ walkParents current, totalAcc + g current)
          else
            (let closedSet1 = closedSet @ [current];
                 neighbors = generateNeighbors (location current) segmentEnd;
                 openSet2 =
                   foldl (visitNeighbor current segmentEnd closedSet1) openSet1 neighbors
             in if length openSet2 = 0
                then Break (pathAcc @ [segmentStart, segmentEnd],
                            totalAcc + haversineDistance segmentStart segmentEnd)
                else Again openSet2 closedSet1))"

text \<open>
  The loop.  The result is \<open>None\<close> when the loop does not come to an end, or when a
  round throws.
\<close>

partial_function (option) whileOpen ::
  "Location \<Rightarrow> Location \<Rightarrow> PathNode list \<Rightarrow> PathNode list \<Rightarrow> Location list \<Rightarrow> real
     \<Rightarrow> (Location list \<times> real) option" where
  "whileOpen segmentStart segmentEnd openSet closedSet pathAcc totalAcc =
     (if length openSet > 0 then
        (case whileBody segmentStart segmentEnd openSet closedSet pathAcc totalAcc of
           Break result \<Rightarrow> Some result
         | Again openSet2 closedSet1 \<Rightarrow>
             whileOpen segmentStart segmentEnd openSet2 closedSet1 pathAcc totalAcc
         | Throw \<Rightarrow> None)
      else Some (pathAcc, totalAcc))"

text \<open>The same loop, given up after \<open>n\<close> rounds: \<open>None\<close> if it has not ended by then.\<close>

fun whileOpen_rounds ::
  "nat \<Rightarrow> Location \<Rightarrow> Location \<Rightarrow> PathNode list \<Rightarrow> PathNode list \<Rightarrow> Location list \<Rightarrow> real
     \<Rightarrow> (Location list \<times> real) option" where
  "whileOpen_rounds n segmentStart segmentEnd openSet closedSet pathAcc totalAcc =
     (if length openSet > 0 then
        (case n of
           0 \<Rightarrow> None
         | Suc m \<Rightarrow>
             (case whileBody segmentStart segmentEnd openSet closedSet pathAcc totalAcc of
                Break result \<Rightarrow> Some result
              | Again openSet2 closedSet1 \<Rightarrow>
                  whileOpen_rounds m segmentStart segmentEnd openSet2 closedSet1 pathAcc totalAcc
              | Throw \<Rightarrow> None))
      else Some (pathAcc, totalAcc))"

text \<open>One round of \<open>for (let i = 0; i < allPoints.length - 1; i++)\<close>.\<close>

definition segmentSearch ::
  "Location \<Rightarrow> Location \<Rightarrow> Location list \<Rightarrow> real \<Rightarrow> (Location list \<times> real) option" where
  "segmentSearch segmentStart segmentEnd pathAcc totalAcc =
     (let hStart = haversineDistance segmentStart segmentEnd;
          startNode = PathNode segmentStart 0 hStart (0 + hStart) None
      in whileOpen segmentStart segmentEnd [startNode] [] pathAcc totalAcc)"

fun forSegments ::
  "Location list \<Rightarrow> Location list \<Rightarrow> real \<Rightarrow> (Location list \<times> real) option" where
  "forSegments (segmentStart # segmentEnd # rest) pathAcc totalAcc =
     (case segmentSearch segmentStart segmentEnd pathAcc totalAcc of
        None \<Rightarrow> None
      | Some (pathAcc', totalAcc') \<Rightarrow> forSegments (segmentEnd # rest) pathAcc' totalAcc')"
| "forSegments allPoints pathAcc totalAcc = Some (pathAcc, totalAcc)"

definition astarPathfinding ::
  "Location \<Rightarrow> Location \<Rightarrow> Location list \<Rightarrow> PathResult option" where
  "astarPathfinding start goal waypoints =
     (let allPoints = [start] @ waypoints @ [goal]
      in case forSegments allPoints [] 0 of
           None \<Rightarrow> None
         | Some (pathAcc, totalAcc) \<Rightarrow> Some \<lparr>path = rev pathAcc, totalDistance = totalAcc\<rparr>)"

section \<open>Proximity matcher (algorithms/astar, services/rideService)\<close>

datatype RideStatus = available | accepted | in_progress | completed | cancelled

record Profile =
  id' :: string
  full_name :: string
  phone :: string
  avatar_url :: "string option"
  rating :: real
  total_rides :: real
  created_at :: string
  updated_at :: string

text \<open>The \<open>Ride\<close> of lib/supabase, the row that the ride service reads.\<close>

record SupabaseRide =
  id' :: string
  driver_id :: string
  passenger_id :: "string option"
  status :: RideStatus
  pickup_lat :: real
  pickup_lng :: real
  pickup_address :: string
  dropoff_lat :: real
  dropoff_lng :: real
  dropoff_address :: string
  current_lat :: "real option"
  current_lng :: "real option"
  distance_km :: real
  estimated_duration_min :: real
  price :: real
  vehicle_type :: string
  seats_available :: real
  created_at :: string
  updated_at :: string
  driver :: "Profile option"

record NearbyRide =
  ride :: SupabaseRide
  distance :: real


record MatchedRide =
  ride :: SupabaseRide
  pickupDistance :: real
  dropoffDistance :: real
  matchScore :: real



section \<open>The specification's wording of the hard rules\<close>

text \<open>A ride is eliminated if any of the five rules holds.\<close>

definition eliminated_spec :: "profile \<Rightarrow> Location \<Rightarrow> Ride \<Rightarrow> bool" where
  "eliminated_spec userProfile userLocation r =
     (Ride.price r > maxPrice (UserProfile.preferences userProfile)
      \<or> Driver.rating (Ride.driver r)
           < preferredDriverRatings (UserProfile.preferences userProfile)
      \<or> (preferredVehicleTypes (UserProfile.preferences userProfile) \<noteq> []
           \<and> Ride.vehicle_type r
                \<notin> set (preferredVehicleTypes (UserProfile.preferences userProfile)))
      \<or> smokingPreference (UserProfile.preferences userProfile)
           \<noteq> smokingAllowed (Driver.preferences (Ride.driver r))
      \<or> haversineDistance userLocation
           \<lparr>lat = Ride.pickup_lat r, lng = Ride.pickup_lng r\<rparr> > 5)"

section \<open>Example data\<close>

definition origin :: Location where
  "origin = \<lparr>lat = 0, lng = 0\<rparr>"

definition ex_prefs :: UserPreferences where
  "ex_prefs =
     \<lparr>preferredVehicleTypes = [''economy''], maxPrice = 20, preferredDriverRatings = 4.5,
      smokingPreference = False, musicPreference = True,
      conversationPreference = moderate\<rparr>"

definition ex_profile :: profile where
  "ex_profile =
     \<lparr>UserProfile.id' = ''u1'', UserProfile.rideHistory = [],
      UserProfile.preferences = ex_prefs, ratings = [], frequentLocations = []\<rparr>"

definition ex_driver :: "real \<Rightarrow> Driver" where
  "ex_driver stars =
     \<lparr>Driver.id' = ''d1'', Driver.rating = stars, totalRides = 10,
      Driver.vehicleType = ''economy'',
      Driver.preferences =
        \<lparr>smokingAllowed = False, musicPlaying = False, conversationLevel = quiet\<rparr>,
      Driver.rideHistory = []\<rparr>"

definition ex_ride :: "real \<Rightarrow> real \<Rightarrow> Ride" where
  "ex_ride fare stars =
     \<lparr>Ride.id' = ''r1'', Ride.driver = ex_driver stars,
      Ride.pickup_lat = 0, Ride.pickup_lng = 0, Ride.dropoff_lat = 0, Ride.dropoff_lng = 0,
      Ride.price = fare, Ride.vehicle_type = ''economy'', Ride.distance_km = 3,
      Ride.estimated_duration_min = 5\<rparr>"

definition ex_entry :: "real \<Rightarrow> RideHistory" where
  "ex_entry fare =
     \<lparr>pickup = origin, dropoff = origin,
      timestamp = \<lparr>getTime = 0, getHours = 9, getDay = 1\<rparr>,
      RideHistory.price = fare, RideHistory.vehicleType = ''economy'',
      RideHistory.rating = 4, timeOfDay = morning, dayOfWeek = 1\<rparr>"

text \<open>
  A profile as the ride service builds it for a rider with one past ride: the history
  is filled, the list of ratings is empty.
\<close>

definition ex_sparse_profile :: profile where
  "ex_sparse_profile =
     \<lparr>UserProfile.id' = ''u1'', UserProfile.rideHistory = [ex_entry 0],
      UserProfile.preferences = ex_prefs, ratings = [], frequentLocations = []\<rparr>"

definition ex_now :: Date where
  "ex_now = \<lparr>getTime = 0, getHours = 9, getDay = 1\<rparr>"

text \<open>A store whose objects all have no preferred vehicle class, and a profile in it.\<close>

definition ex_store :: store where
  "ex_store = (\<lambda>a. ex_prefs\<lparr>preferredVehicleTypes := []\<rparr>)"

text \<open>A store whose objects all list the class economy twice.\<close>

definition ex_store_twice :: store where
  "ex_store_twice = (\<lambda>a. ex_prefs\<lparr>preferredVehicleTypes := [''economy'', ''economy'']\<rparr>)"

definition ex_profile_obj :: "ref UserProfile" where
  "ex_profile_obj =
     \<lparr>UserProfile.id' = ''u1'', UserProfile.rideHistory = [],
      UserProfile.preferences = 0, ratings = [], frequentLocations = []\<rparr>"

definition ex_peer :: "string \<Rightarrow> RideHistory list \<Rightarrow> profile" where
  "ex_peer name hist =
     \<lparr>UserProfile.id' = name, UserProfile.rideHistory = hist,
      UserProfile.preferences = ex_prefs, ratings = [], frequentLocations = []\<rparr>"

text \<open>
  Two points that lie opposite each other on the globe, and a ride that is picked up at
  the second.
\<close>

definition ex_south :: Location where
  "ex_south = \<lparr>lat = - 82, lng = - 179\<rparr>"

definition ex_north :: Location where
  "ex_north = \<lparr>lat = 82, lng = 1\<rparr>"

definition ex_far_ride :: Ride where
  "ex_far_ride = (ex_ride 15 5)\<lparr>Ride.pickup_lat := 82, Ride.pickup_lng := 1\<rparr>"

section \<open>The grid that a segment's search stays on\<close>

text \<open>
  A search from \<open>s\<close> towards \<open>e\<close> only ever makes nodes at \<open>s\<close> plus whole numbers of
  steps; \<open>box s e\<close> is the finite part of that grid in which the search stays, and
  \<open>search_inv\<close> is what holds of the open and the closed set at the head of the loop.
\<close>

definition gridpt :: "Location \<Rightarrow> int \<Rightarrow> int \<Rightarrow> Location" where
  "gridpt s i j = \<lparr>lat = lat s + 0.01 * real_of_int i, lng = lng s + 0.01 * real_of_int j\<rparr>"

definition bnd :: "real \<Rightarrow> real \<Rightarrow> int" where
  "bnd a b = \<lceil>\<bar>b - a\<bar> * 100\<rceil> + 1"

definition box :: "Location \<Rightarrow> Location \<Rightarrow> Location set" where
  "box s e =
     (\<lambda>(i, j). gridpt s i j) `
       ({- bnd (lat s) (lat e) .. bnd (lat s) (lat e)}
        \<times> {- bnd (lng s) (lng e) .. bnd (lng s) (lng e)})"

definition search_inv :: "Location \<Rightarrow> Location \<Rightarrow> PathNode list \<Rightarrow> PathNode list \<Rightarrow> bool" where
  "search_inv s e openSet closedSet =
     (location ` set openSet \<subseteq> box s e \<and>
      location ` set closedSet \<subseteq> box s e \<and>
      distinct (map location openSet) \<and>
      distinct (map location closedSet) \<and>
      location ` set openSet \<inter> location ` set closedSet = {})"

text \<open>A number of rounds that is enough for the segment from \<open>s\<close> to \<open>e\<close>.\<close>

definition round_limit :: "Location \<Rightarrow> Location \<Rightarrow> nat" where
  "round_limit s e =
     nat ((2 * bnd (lat s) (lat e) + 1) * (2 * bnd (lng s) (lng e) + 1)) + 1"

section \<open>The specification's wording of the match score\<close>





section \<open>More example data\<close>

text \<open>A point on the equator, \<open>d\<close> degrees east of \<open>origin\<close>.\<close>

definition east :: "real \<Rightarrow> Location" where
  "east d = \<lparr>lat = 0, lng = d\<rparr>"


section \<open>Literals and special values\<close>

lemma Fin_numeral: "(numeral n :: jsnum) = Fin (numeral n)"
proof (induction n)
  case One
  show ?case by (simp add: one_jsnum_def)
next
  case (Bit0 n)
  then show ?case by (simp only: numeral.simps plus_jsnum.simps)
next
  case (Bit1 n)
  then show ?case by (simp only: numeral.simps plus_jsnum.simps one_jsnum_def)
qed

lemma Fin_power: "Fin a ^ n = Fin (a ^ n)"
  by (induction n) (simp_all add: one_jsnum_def)

lemmas jsnum_lit = Fin_numeral zero_jsnum_def one_jsnum_def Fin_power minus_jsnum_def

section \<open>Rounding to the nearest double\<close>

lemma pow2_powr: "pow2 e = 2 powr (real_of_int e)"
  by (simp add: pow2_def powr_int)

lemma binade_eq:
  assumes "pow2 e \<le> \<bar>x\<bar>" and "\<bar>x\<bar> < pow2 (e + 1)" and "- 1022 \<le> e"
  shows "binade x = e"
proof -
  have pos: "0 < \<bar>x\<bar>" using assms(1) by (simp add: pow2_powr) (smt (verit) powr_gt_zero)
  have "real_of_int e \<le> log 2 \<bar>x\<bar>"
    using assms(1) pos by (simp add: le_log_iff pow2_powr)
  moreover have "log 2 \<bar>x\<bar> < real_of_int e + 1"
    using assms(2) pos by (simp add: log_less_iff pow2_powr add.commute)
  ultimately have "\<lfloor>log 2 \<bar>x\<bar>\<rfloor> = e" by linarith
  with assms(3) show ?thesis by (simp add: binade_def)
qed

lemma fl_in_binade:
  assumes "pow2 e \<le> \<bar>x\<bar>" and "\<bar>x\<bar> < pow2 (e + 1)" and "- 1022 \<le> e" and "e < 1023"
  shows "fl x = Fin (real_of_int (round_even (x / pow2 (e - 52))) * pow2 (e - 52))"
proof -
  have "pow2 (e + 1) \<le> pow2 1023"
    using assms(4) unfolding pow2_powr by (intro powr_mono) auto
  also have "\<dots> < 2 ^ 1024 - 2 ^ 970" by (simp add: pow2_def)
  finally have "\<not> 2 ^ 1024 - 2 ^ 970 \<le> \<bar>x\<bar>" using assms(2) by linarith
  then show ?thesis by (simp add: fl_def binade_eq [OF assms(1-3)])
qed

text \<open>The doubles of some literals, and some sums and products.\<close>

lemma fl_0: "fl 0 = Fin 0"
  by (simp add: fl_def round_even_def)

lemma fl_1: "fl 1 = Fin 1"
  by (subst fl_in_binade [of 0]) (simp_all add: pow2_def round_even_def)










lemma fl_438: "fl (219 / 50) = Fin (4931441591970693 / 2 ^ 50)"
  by (subst fl_in_binade [of 2]) (simp_all add: pow2_def round_even_def)







section \<open>The fare\<close>








section \<open>The deductive filter over exact distances\<close>

lemma haversine_self: "haversineDistance a a = 0"
  by (simp add: haversineDistance_def toRadians_def atan2_def)

lemma deductive_filter_eq:
  "deductiveFiltering rides p loc dest = filter (\<lambda>r. \<not> eliminated_spec p loc r) rides"
  unfolding deductiveFiltering_def eliminated_spec_def Let_def
  by (rule filter_cong) auto

section \<open>Scores that are not numbers\<close>

lemma plus_NaN [simp]: "x + NaN = NaN" "NaN + x = NaN"
  by (cases x; simp)+

lemma times_NaN [simp]: "x * NaN = NaN" "NaN * x = NaN"
  by (cases x; simp)+

lemma divide_NaN [simp]: "x / NaN = NaN" "NaN / x = NaN"
  by (cases x; simp)+

lemma Math_NaN [simp]:
  "Math_max x NaN = NaN" "Math_max NaN x = NaN" "Math_min x NaN = NaN" "Math_min NaN x = NaN"
  by (simp_all add: Math_max_def Math_min_def)

lemma foldl_all_zero:
  "\<forall>x \<in> set xs. k x = (0::real) \<Longrightarrow> foldl (\<lambda>sum x. sum + k x) 0 xs = 0"
  by (induction xs) simp_all

lemma contentBased_NaN:
  assumes "UserProfile.rideHistory p \<noteq> []" and "ratings p = []"
  shows "contentBasedFiltering r p = NaN"
  using assms by (simp add: contentBasedFiltering_def Let_def len_def)

lemma inferPrice_NaN:
  assumes "hs \<noteq> []" and "\<forall>e \<in> set hs. RideHistory.price e = 0"
  shows "inferPriceSensitivity 0 hs = NaN"
  using assms by (simp add: inferPriceSensitivity_def Let_def len_def foldl_all_zero jsnum_lit)

lemma inductive_NaN:
  assumes "UserProfile.rideHistory p \<noteq> []"
    and "\<forall>e \<in> set (UserProfile.rideHistory p). RideHistory.price e = 0"
    and "Ride.price r = 0"
  shows "inductiveScoring r p loc dest now = NaN"
  using assms inferPrice_NaN [of "UserProfile.rideHistory p"]
  by (simp add: inductiveScoring_def Let_def)

text \<open>
  C1.  The scoring stages are not total on sparse data.  For a profile with a
  non-empty ride history and an empty list of ratings the content-based score is NaN
  (the average rating is 0 / 0), whatever the ride; for a history whose prices are all
  zero and a ride priced zero the inductive score is NaN (the price difference is
  0 / 0).
\<close>

theorem scoring_not_total:
  "(UserProfile.rideHistory p \<noteq> [] \<and> ratings p = [] \<longrightarrow> contentBasedFiltering r p = NaN)
   \<and> (UserProfile.rideHistory p \<noteq> []
        \<and> (\<forall>e \<in> set (UserProfile.rideHistory p). RideHistory.price e = 0)
        \<and> Ride.price r = 0
        \<longrightarrow> inductiveScoring r p loc dest now = NaN)"
  using contentBased_NaN inductive_NaN by blast

theorem scoring_not_total_witness:
  "contentBasedFiltering (ex_ride 0 4.5) ex_sparse_profile = NaN
   \<and> inductiveScoring (ex_ride 0 4.5) ex_sparse_profile origin origin ex_now = NaN"
  using scoring_not_total [of ex_sparse_profile "ex_ride 0 4.5" origin origin ex_now]
  by (simp add: ex_sparse_profile_def ex_entry_def ex_ride_def)

section \<open>The profile update\<close>

lemma update_store:
  "fst (updateUserProfile st p r stars acc now) (UserProfile.preferences p) =
     (if acc \<and> 4 \<le> stars
         \<and> Ride.vehicle_type r \<notin> set (preferredVehicleTypes (st (UserProfile.preferences p)))
      then (st (UserProfile.preferences p))
             \<lparr>preferredVehicleTypes :=
                preferredVehicleTypes (st (UserProfile.preferences p)) @ [Ride.vehicle_type r]\<rparr>
      else st (UserProfile.preferences p))"
  by (simp add: updateUserProfile_def Let_def)

lemma update_profile:
  "snd (updateUserProfile st p r stars acc now) =
     p\<lparr>UserProfile.rideHistory := UserProfile.rideHistory p @
          [\<lparr>pickup = \<lparr>lat = Ride.pickup_lat r, lng = Ride.pickup_lng r\<rparr>,
            dropoff = \<lparr>lat = Ride.dropoff_lat r, lng = Ride.dropoff_lng r\<rparr>,
            timestamp = now, RideHistory.price = Ride.price r,
            RideHistory.vehicleType = Ride.vehicle_type r, RideHistory.rating = stars,
            timeOfDay = getTimeOfDay (getHours now), dayOfWeek = getDay now\<rparr>],
       ratings := ratings p @ [stars]\<rparr>"
  by (simp add: updateUserProfile_def Let_def)

text \<open>
  C2.  The profile update writes into its argument.  When the ride was accepted and
  rated 4 or more and its vehicle class is not yet a preferred one, the class is
  appended to the preferred vehicle classes of the argument profile itself: after the
  call the argument reads differently from before.
\<close>

theorem updateUserProfile_writes_input:
  "acc \<and> 4 \<le> stars
     \<and> Ride.vehicle_type r \<notin> set (preferredVehicleTypes (st (UserProfile.preferences p)))
   \<longrightarrow> preferredVehicleTypes (UserProfile.preferences
          (readProfile (fst (updateUserProfile st p r stars acc now)) p))
        = preferredVehicleTypes (UserProfile.preferences (readProfile st p))
            @ [Ride.vehicle_type r]
      \<and> readProfile (fst (updateUserProfile st p r stars acc now)) p \<noteq> readProfile st p"
proof (intro impI conjI)
  assume a: "acc \<and> 4 \<le> stars
     \<and> Ride.vehicle_type r \<notin> set (preferredVehicleTypes (st (UserProfile.preferences p)))"
  then show eq: "preferredVehicleTypes (UserProfile.preferences
          (readProfile (fst (updateUserProfile st p r stars acc now)) p))
        = preferredVehicleTypes (UserProfile.preferences (readProfile st p))
            @ [Ride.vehicle_type r]"
    by (simp add: readProfile_def update_store)
  show "readProfile (fst (updateUserProfile st p r stars acc now)) p \<noteq> readProfile st p"
  proof
    assume "readProfile (fst (updateUserProfile st p r stars acc now)) p = readProfile st p"
    with eq show False by simp
  qed
qed

theorem updateUserProfile_writes_input_witness:
  "preferredVehicleTypes (UserProfile.preferences (readProfile ex_store ex_profile_obj)) = []
   \<and> preferredVehicleTypes (UserProfile.preferences
        (readProfile (fst (updateUserProfile ex_store ex_profile_obj (ex_ride 10 4.8) 5 True ex_now))
           ex_profile_obj)) = [''economy'']"
  using updateUserProfile_writes_input [of True 5 "ex_ride 10 4.8" ex_store ex_profile_obj ex_now]
  by (simp add: readProfile_def ex_store_def ex_profile_obj_def ex_ride_def)

text \<open>
  C7.  The profile update is append-only: the ride history of the returned profile is
  the history of the argument with one entry added at the end, so it is exactly one
  entry longer.  Two updates with acceptance and a rating of 5 for rides of the same
  vehicle class, the second on any profile that shares the preferences object (the
  returned profile or the argument again), add the class at most once: afterwards
  the preferred classes are the old ones if the class was among them, and the old
  ones followed by the class otherwise; if the old ones had no repetition the class
  occurs exactly once.
\<close>

theorem updateUserProfile_append_only:
  "UserProfile.rideHistory (snd (updateUserProfile st p r stars acc now))
     = UserProfile.rideHistory p
         @ [last (UserProfile.rideHistory (snd (updateUserProfile st p r stars acc now)))]
   \<and> length (UserProfile.rideHistory (snd (updateUserProfile st p r stars acc now)))
        = length (UserProfile.rideHistory p) + 1
   \<and> (Ride.vehicle_type r' = Ride.vehicle_type r \<and>
        UserProfile.preferences p' = UserProfile.preferences p \<longrightarrow>
        (let st1 = fst (updateUserProfile st p r 5 True now);
             st2 = fst (updateUserProfile st1 p' r' 5 True now');
             before = preferredVehicleTypes (st (UserProfile.preferences p));
             after = preferredVehicleTypes (st2 (UserProfile.preferences p))
         in after = (if Ride.vehicle_type r \<in> set before then before
                     else before @ [Ride.vehicle_type r])
            \<and> (distinct before \<longrightarrow> count_list after (Ride.vehicle_type r) = 1)))"
proof -
  have hist: "UserProfile.rideHistory (snd (updateUserProfile st p r stars acc now))
     = UserProfile.rideHistory p
         @ [last (UserProfile.rideHistory (snd (updateUserProfile st p r stars acc now)))]"
    by (simp add: update_profile)
  have len: "length (UserProfile.rideHistory (snd (updateUserProfile st p r stars acc now)))
        = length (UserProfile.rideHistory p) + 1"
    by (simp add: update_profile)
  have twice: "Ride.vehicle_type r' = Ride.vehicle_type r \<and>
        UserProfile.preferences p' = UserProfile.preferences p \<longrightarrow>
        (let st1 = fst (updateUserProfile st p r 5 True now);
             st2 = fst (updateUserProfile st1 p' r' 5 True now');
             before = preferredVehicleTypes (st (UserProfile.preferences p));
             after = preferredVehicleTypes (st2 (UserProfile.preferences p))
         in after = (if Ride.vehicle_type r \<in> set before then before
                     else before @ [Ride.vehicle_type r])
            \<and> (distinct before \<longrightarrow> count_list after (Ride.vehicle_type r) = 1))"
  proof
    assume same: "Ride.vehicle_type r' = Ride.vehicle_type r \<and>
        UserProfile.preferences p' = UserProfile.preferences p"
    have st2: "fst (updateUserProfile (fst (updateUserProfile st p r 5 True now)) p' r' 5 True now')
                 (UserProfile.preferences p)
               = fst (updateUserProfile st p r 5 True now) (UserProfile.preferences p)"
      using same update_store [of "fst (updateUserProfile st p r 5 True now)" p' r' 5 True now']
      by (simp add: update_store)
    have once: "distinct xs \<Longrightarrow> v \<in> set xs \<Longrightarrow> count_list xs v = 1" for xs and v :: string
      by (induction xs) auto
    show "(let st1 = fst (updateUserProfile st p r 5 True now);
             st2 = fst (updateUserProfile st1 p' r' 5 True now');
             before = preferredVehicleTypes (st (UserProfile.preferences p));
             after = preferredVehicleTypes (st2 (UserProfile.preferences p))
         in after = (if Ride.vehicle_type r \<in> set before then before
                     else before @ [Ride.vehicle_type r])
            \<and> (distinct before \<longrightarrow> count_list after (Ride.vehicle_type r) = 1))"
      unfolding Let_def st2 by (simp add: update_store once)
  qed
  from hist len twice show ?thesis by (simp only:)
qed

theorem updateUserProfile_append_only_witness:
  "length (UserProfile.rideHistory
      (snd (updateUserProfile ex_store ex_profile_obj (ex_ride 10 4.8) 5 True ex_now))) = 1
   \<and> preferredVehicleTypes
        (fst (updateUserProfile
               (fst (updateUserProfile ex_store ex_profile_obj (ex_ride 10 4.8) 5 True ex_now))
               (snd (updateUserProfile ex_store ex_profile_obj (ex_ride 10 4.8) 5 True ex_now))
               (ex_ride 12 4.9) 5 True ex_now) 0) = [''economy'']
   \<and> count_list (preferredVehicleTypes
        (fst (updateUserProfile
               (fst (updateUserProfile ex_store ex_profile_obj (ex_ride 10 4.8) 5 True ex_now))
               (snd (updateUserProfile ex_store ex_profile_obj (ex_ride 10 4.8) 5 True ex_now))
               (ex_ride 12 4.9) 5 True ex_now) 0)) ''economy'' = 1"
  using updateUserProfile_append_only
    [of ex_store ex_profile_obj "ex_ride 10 4.8" 5 True ex_now "ex_ride 12 4.9"
        "snd (updateUserProfile ex_store ex_profile_obj (ex_ride 10 4.8) 5 True ex_now)" ex_now]
  by (simp add: Let_def update_profile ex_store_def ex_profile_obj_def ex_ride_def)

text \<open>
  The class does not always occur exactly once after two such updates: the preferred
  classes are a list, and when the class is listed twice before the updates it is
  listed twice after them.
\<close>

theorem updateUserProfile_twice_counterexample:
  "preferredVehicleTypes (ex_store_twice (UserProfile.preferences ex_profile_obj))
     = [''economy'', ''economy'']
   \<and> Ride.vehicle_type (ex_ride 10 5) = ''economy''
   \<and> Ride.vehicle_type (ex_ride 12 5) = ''economy''
   \<and> count_list (preferredVehicleTypes
        (fst (updateUserProfile
               (fst (updateUserProfile ex_store_twice ex_profile_obj (ex_ride 10 5) 5 True ex_now))
               (snd (updateUserProfile ex_store_twice ex_profile_obj (ex_ride 10 5) 5 True ex_now))
               (ex_ride 12 5) 5 True ex_now)
           (UserProfile.preferences ex_profile_obj))) ''economy'' = 2"
  by (simp add: updateUserProfile_def Let_def ex_store_twice_def ex_profile_obj_def ex_ride_def)

section \<open>Sorting keeps the elements\<close>

lemma set_insert_by [simp]: "set (insert_by cmp x ys) = insert x (set ys)"
  by (induction ys) auto

lemma length_insert_by [simp]: "length (insert_by cmp x ys) = Suc (length ys)"
  by (induction ys) auto

lemma set_Array_sort [simp]: "set (Array_sort cmp xs) = set xs"
  by (induction xs) (simp_all add: Array_sort_def)

lemma length_Array_sort [simp]: "length (Array_sort cmp xs) = length xs"
  by (induction xs) (simp_all add: Array_sort_def)

lemma Array_sort_Nil [simp]: "Array_sort cmp [] = []"
  by (simp add: Array_sort_def)

lemma Array_sort_single [simp]: "Array_sort cmp [x] = [x]"
  by (simp add: Array_sort_def)

section \<open>Similar users and the collaborative filter\<close>

text \<open>
  C10.  Every peer that \<open>findSimilarUsers\<close> returns is one of the given profiles, has a
  non-empty ride history and an id different from the rider's, and carries its
  similarity to the rider, which is greater than 0.5; at most 10 peers are returned.
  So the length that the collaborative filter divides by, for each of these peers, is
  not zero.
\<close>

theorem findSimilarUsers_peers:
  "(\<forall>su \<in> set (findSimilarUsers p allUsers).
       user su \<in> set allUsers
     \<and> UserProfile.rideHistory (user su) \<noteq> []
     \<and> UserProfile.id' (user su) \<noteq> UserProfile.id' p
     \<and> similarity su = calculateUserSimilarity p (user su)
     \<and> js_gt (similarity su) 0.5
     \<and> len (UserProfile.rideHistory (user su)) \<noteq> 0)
   \<and> length (findSimilarUsers p allUsers) \<le> 10"
proof -
  have "su \<in> set (findSimilarUsers p allUsers) \<Longrightarrow>
       user su \<in> set allUsers
     \<and> UserProfile.rideHistory (user su) \<noteq> []
     \<and> UserProfile.id' (user su) \<noteq> UserProfile.id' p
     \<and> similarity su = calculateUserSimilarity p (user su)
     \<and> js_gt (similarity su) 0.5
     \<and> len (UserProfile.rideHistory (user su)) \<noteq> 0" for su
    unfolding findSimilarUsers_def
    by (auto dest!: in_set_takeD simp: len_def zero_jsnum_def)
  moreover have "length (findSimilarUsers p allUsers) \<le> 10"
    by (simp add: findSimilarUsers_def)
  ultimately show ?thesis by blast
qed

lemma ex_similarity: "calculateUserSimilarity ex_profile (ex_peer n hs) = Fin 1"
  by (simp add: calculateUserSimilarity_def ex_profile_def ex_peer_def ex_prefs_def Let_def
      len_def Math_max_def jsnum_lit)

theorem findSimilarUsers_peers_witness:
  "findSimilarUsers ex_profile
      [ex_peer ''u2'' [ex_entry 7], ex_peer ''u1'' [ex_entry 7], ex_peer ''u3'' []]
     = [\<lparr>user = ex_peer ''u2'' [ex_entry 7], similarity = Fin 1\<rparr>]
   \<and> len (UserProfile.rideHistory (ex_peer ''u2'' [ex_entry 7])) \<noteq> 0"
  using findSimilarUsers_peers [of ex_profile
      "[ex_peer ''u2'' [ex_entry 7], ex_peer ''u1'' [ex_entry 7], ex_peer ''u3'' []]"]
    ex_similarity
  by (simp add: findSimilarUsers_def js_gt_def jsnum_lit ex_peer_def ex_profile_def len_def)


lemma findSimilarUsers_Nil: "findSimilarUsers p [] = []"
  by (simp add: findSimilarUsers_def)

lemma findSimilarUsers_none:
  assumes "\<forall>u \<in> set allUsers. \<not> js_gt (calculateUserSimilarity p u) 0.5"
  shows "findSimilarUsers p allUsers = []"
proof -
  have "filter (\<lambda>su. js_gt (similarity su) 0.5)
             (map (\<lambda>u. \<lparr>user = u, similarity = calculateUserSimilarity p u\<rparr>)
                (filter (\<lambda>u. UserProfile.id' u \<noteq> UserProfile.id' p \<and>
                               length (UserProfile.rideHistory u) > 0) allUsers)) = []"
    using assms by (auto simp: filter_empty_conv)
  then show ?thesis by (simp add: findSimilarUsers_def)
qed

lemma collaborative_neutral:
  "findSimilarUsers p allUsers = [] \<Longrightarrow> collaborativeFiltering r p allUsers = 50"
  by (simp add: collaborativeFiltering_def)

lemma scoreRide_no_peers:
  assumes "allUsers = None \<or> allUsers = Some []"
  shows "recommendationScore (scoreRide p loc dest allUsers now r)
         = inductiveScoring r p loc dest now * 0.4 + contentBasedFiltering r p * 0.35
           + 50 * 0.25"
  using assms by (auto simp: scoreRide_def Let_def Ride.extend_def)

lemma set_hybrid:
  "set (hybridRecommendation rides p loc dest allUsers now)
     = scoreRide p loc dest allUsers now ` set (deductiveFiltering rides p loc dest)"
  by (simp add: hybridRecommendation_def)

text \<open>
  C5.  The collaborative filter returns exactly 50 when the list of peer profiles is
  empty, when no similar peer is found, and in particular when no peer passes the
  similarity threshold.  When no peer profiles are supplied (the argument is left out
  or is the empty list) the hybrid recommendation has one result for every ride that
  passed the deductive filter, and the score of each is \<open>0.4\<close> times its inductive score
  plus \<open>0.35\<close> times its content-based score plus \<open>0.25\<close> times the neutral 50.
\<close>

theorem collaborative_fallback:
  "collaborativeFiltering r p [] = 50
   \<and> (findSimilarUsers p allUsers = [] \<longrightarrow> collaborativeFiltering r p allUsers = 50)
   \<and> ((\<forall>u \<in> set allUsers. \<not> js_gt (calculateUserSimilarity p u) 0.5)
        \<longrightarrow> collaborativeFiltering r p allUsers = 50)
   \<and> (peers = None \<or> peers = Some [] \<longrightarrow>
        length (hybridRecommendation rides p loc dest peers now)
          = length (deductiveFiltering rides p loc dest)
        \<and> (\<forall>s \<in> set (hybridRecommendation rides p loc dest peers now).
              \<exists>c \<in> set (deductiveFiltering rides p loc dest).
                 s = scoreRide p loc dest peers now c
               \<and> recommendationScore s
                   = inductiveScoring c p loc dest now * 0.4
                     + contentBasedFiltering c p * 0.35 + 50 * 0.25))"
proof -
  have a: "collaborativeFiltering r p [] = 50"
    by (simp add: collaborative_neutral findSimilarUsers_Nil)
  have b: "findSimilarUsers p allUsers = [] \<longrightarrow> collaborativeFiltering r p allUsers = 50"
    by (simp add: collaborative_neutral)
  have c: "(\<forall>u \<in> set allUsers. \<not> js_gt (calculateUserSimilarity p u) 0.5)
        \<longrightarrow> collaborativeFiltering r p allUsers = 50"
    by (simp add: collaborative_neutral findSimilarUsers_none)
  have d: "peers = None \<or> peers = Some [] \<longrightarrow>
        length (hybridRecommendation rides p loc dest peers now)
          = length (deductiveFiltering rides p loc dest)
        \<and> (\<forall>s \<in> set (hybridRecommendation rides p loc dest peers now).
              \<exists>c \<in> set (deductiveFiltering rides p loc dest).
                 s = scoreRide p loc dest peers now c
               \<and> recommendationScore s
                   = inductiveScoring c p loc dest now * 0.4
                     + contentBasedFiltering c p * 0.35 + 50 * 0.25)"
  proof
    assume np: "peers = None \<or> peers = Some []"
    have "length (hybridRecommendation rides p loc dest peers now)
          = length (deductiveFiltering rides p loc dest)"
      by (simp add: hybridRecommendation_def)
    moreover have "\<forall>s \<in> set (hybridRecommendation rides p loc dest peers now).
              \<exists>c \<in> set (deductiveFiltering rides p loc dest).
                 s = scoreRide p loc dest peers now c
               \<and> recommendationScore s
                   = inductiveScoring c p loc dest now * 0.4
                     + contentBasedFiltering c p * 0.35 + 50 * 0.25"
      using scoreRide_no_peers [OF np] unfolding set_hybrid by blast
    ultimately show "length (hybridRecommendation rides p loc dest peers now)
          = length (deductiveFiltering rides p loc dest)
        \<and> (\<forall>s \<in> set (hybridRecommendation rides p loc dest peers now).
              \<exists>c \<in> set (deductiveFiltering rides p loc dest).
                 s = scoreRide p loc dest peers now c
               \<and> recommendationScore s
                   = inductiveScoring c p loc dest now * 0.4
                     + contentBasedFiltering c p * 0.35 + 50 * 0.25)"
      by (simp only:)
  qed
  from a b c d show ?thesis by (simp only:)
qed


lemma ex_inductive: "inductiveScoring (ex_ride 15 5) ex_profile origin origin ex_now = Fin 100"
  using haversine_self [of origin]
  by (simp add: inductiveScoring_def Let_def ex_profile_def ex_ride_def ex_driver_def ex_prefs_def
   calculateRouteSimilarity_def calculateTimePreference_def inferPriceSensitivity_def
   predictDriverCompatibility_def calculateProximityPreference_def origin_def jsnum_lit Math_max_def Math_min_def)

lemma ex_content: "contentBasedFiltering (ex_ride 15 5) ex_profile = Fin 50"
  by (simp add: contentBasedFiltering_def ex_profile_def jsnum_lit)

lemma ex_filter: "deductiveFiltering [ex_ride 15 5, ex_ride 25 5] ex_profile origin origin = [ex_ride 15 5]"
  using haversine_self [of origin]
  by (simp add: deductiveFiltering_def ex_ride_def ex_driver_def ex_profile_def ex_prefs_def
        origin_def)

theorem collaborative_fallback_witness:
  "collaborativeFiltering (ex_ride 15 5) ex_profile [] = 50
   \<and> map recommendationScore
        (hybridRecommendation [ex_ride 15 5, ex_ride 25 5] ex_profile origin origin None ex_now)
       = [Fin 70]
   \<and> map recommendationScore
        (hybridRecommendation [ex_ride 15 5, ex_ride 25 5] ex_profile origin origin (Some []) ex_now)
       = [Fin 70]"
  using collaborative_fallback [of "ex_ride 15 5" ex_profile "[]" None
          "[ex_ride 15 5, ex_ride 25 5]" origin origin ex_now]
        collaborative_fallback [of "ex_ride 15 5" ex_profile "[]" "Some []"
          "[ex_ride 15 5, ex_ride 25 5]" origin origin ex_now]
  by (simp add: ex_filter ex_inductive ex_content hybridRecommendation_def jsnum_lit Let_def)

section \<open>The pathfinder stays on a finite grid\<close>

lemma finite_box: "finite (box s e)"
  by (simp add: box_def)

lemma bnd_pos: "1 \<le> bnd a b"
proof -
  have "0 \<le> \<bar>b - a\<bar> * 100" by simp
  then have "0 \<le> \<lceil>\<bar>b - a\<bar> * 100\<rceil>" by linarith
  then show ?thesis by (simp add: bnd_def)
qed

lemma box_iff:
  "l \<in> box s e \<longleftrightarrow>
     (\<exists>i j. \<bar>i\<bar> \<le> bnd (lat s) (lat e) \<and> \<bar>j\<bar> \<le> bnd (lng s) (lng e) \<and> l = gridpt s i j)"
proof
  assume "l \<in> box s e"
  then obtain i j where "i \<in> {- bnd (lat s) (lat e) .. bnd (lat s) (lat e)}"
    and "j \<in> {- bnd (lng s) (lng e) .. bnd (lng s) (lng e)}" and "l = gridpt s i j"
    unfolding box_def by auto
  moreover from this have "\<bar>i\<bar> \<le> bnd (lat s) (lat e)" and "\<bar>j\<bar> \<le> bnd (lng s) (lng e)"
    by auto
  ultimately show "\<exists>i j. \<bar>i\<bar> \<le> bnd (lat s) (lat e) \<and> \<bar>j\<bar> \<le> bnd (lng s) (lng e) \<and> l = gridpt s i j"
    by blast
next
  assume "\<exists>i j. \<bar>i\<bar> \<le> bnd (lat s) (lat e) \<and> \<bar>j\<bar> \<le> bnd (lng s) (lng e) \<and> l = gridpt s i j"
  then obtain i j where i: "\<bar>i\<bar> \<le> bnd (lat s) (lat e)" and j: "\<bar>j\<bar> \<le> bnd (lng s) (lng e)"
    and l: "l = gridpt s i j"
    by blast
  have "(i, j) \<in> {- bnd (lat s) (lat e) .. bnd (lat s) (lat e)}
        \<times> {- bnd (lng s) (lng e) .. bnd (lng s) (lng e)}"
    using i j by auto
  then show "l \<in> box s e"
    unfolding box_def l by (rule image_eqI [rotated]) simp
qed

lemma start_in_box: "s \<in> box s e"
proof -
  have "gridpt s 0 0 = s" by (simp add: gridpt_def)
  moreover have "\<bar>0::int\<bar> \<le> bnd a b" for a b
    using bnd_pos [of a b] by simp
  ultimately show ?thesis
    unfolding box_iff by metis
qed

lemma step_bound:
  fixes i :: int and a b x :: real
  assumes "\<bar>i\<bar> \<le> bnd a b" and "x = a + 0.01 * real_of_int i"
  shows "\<bar>if b > x then i + 1 else i - 1\<bar> \<le> bnd a b"
proof (cases "b > x")
  case True
  then have "real_of_int i < (b - a) * 100" using assms(2) by simp
  also have "\<dots> \<le> \<bar>b - a\<bar> * 100" by (rule mult_right_mono; simp)
  finally have "real_of_int i < real_of_int \<lceil>\<bar>b - a\<bar> * 100\<rceil>"
    by linarith
  then have "i + 1 \<le> \<lceil>\<bar>b - a\<bar> * 100\<rceil>" by linarith
  with assms(1) True show ?thesis by (simp add: bnd_def)
next
  case False
  then have "(b - a) * 100 \<le> real_of_int i" using assms(2) by simp
  moreover have "- \<bar>b - a\<bar> * 100 \<le> (b - a) * 100"
    by (rule mult_right_mono; simp add: abs_if)
  moreover have "real_of_int \<lceil>\<bar>b - a\<bar> * 100\<rceil> \<ge> \<bar>b - a\<bar> * 100" by linarith
  ultimately have "- real_of_int \<lceil>\<bar>b - a\<bar> * 100\<rceil> \<le> real_of_int i" by linarith
  then have "- \<lceil>\<bar>b - a\<bar> * 100\<rceil> \<le> i" by linarith
  with assms(1) False show ?thesis by (simp add: bnd_def)
qed

lemma neighbors_in_box:
  assumes "l \<in> box s e"
  shows "set (generateNeighbors l e) \<subseteq> box s e"
proof -
  from assms obtain i j where
    i: "\<bar>i\<bar> \<le> bnd (lat s) (lat e)" and j: "\<bar>j\<bar> \<le> bnd (lng s) (lng e)"
    and l: "l = gridpt s i j"
    unfolding box_iff by auto
  define i' where "i' = (if lat e > lat l then i + 1 else i - 1)"
  define j' where "j' = (if lng e > lng l then j + 1 else j - 1)"
  have i': "\<bar>i'\<bar> \<le> bnd (lat s) (lat e)"
    unfolding i'_def using i l by (intro step_bound) (simp_all add: gridpt_def)
  have j': "\<bar>j'\<bar> \<le> bnd (lng s) (lng e)"
    unfolding j'_def using j l by (intro step_bound) (simp_all add: gridpt_def)
  have inb: "\<bar>p\<bar> \<le> bnd (lat s) (lat e) \<Longrightarrow> \<bar>q\<bar> \<le> bnd (lng s) (lng e)
       \<Longrightarrow> gridpt s p q \<in> box s e" for p q
    unfolding box_iff by auto
  have "generateNeighbors l e = [gridpt s i' j, gridpt s i j', gridpt s i' j']"
    by (simp add: generateNeighbors_def Let_def l gridpt_def i'_def j'_def algebra_simps)
  then show ?thesis using inb i j i' j' by simp
qed

lemma sameSpot_box:
  assumes "l \<in> box s e" and "location n \<in> box s e"
  shows "sameSpot l n \<longleftrightarrow> location n = l"
proof -
  from assms obtain i j p q where l: "l = gridpt s i j" and n: "location n = gridpt s p q"
    unfolding box_iff by auto
  have close: "\<bar>0.01 * real_of_int a - 0.01 * real_of_int b\<bar> < 0.0001 \<longleftrightarrow> a = b" for a b :: int
  proof
    assume "\<bar>0.01 * real_of_int a - 0.01 * real_of_int b\<bar> < 0.0001"
    then have "\<bar>0.01 * (real_of_int a - real_of_int b)\<bar> < 0.01 * 0.01"
      by (simp add: right_diff_distrib)
    then have "0.01 * \<bar>real_of_int a - real_of_int b\<bar> < 0.01 * 0.01"
      by (simp only: abs_mult) simp
    then have "\<bar>real_of_int a - real_of_int b\<bar> < 0.01"
      by simp
    then have "\<bar>real_of_int (a - b)\<bar> < 1" by simp
    then show "a = b" by linarith
  qed simp
  have "sameSpot l n \<longleftrightarrow> p = i \<and> q = j"
    using close [of p i] close [of q j] by (simp add: sameSpot_def l n gridpt_def)
  also have "\<dots> \<longleftrightarrow> location n = l"
    by (auto simp add: l n gridpt_def)
  finally show ?thesis .
qed


section \<open>Sorting keeps distinctness\<close>

lemma distinct_insert_by:
  "distinct (map k (insert_by cmp x ys)) \<longleftrightarrow> k x \<notin> k ` set ys \<and> distinct (map k ys)"
  by (induction ys) auto

lemma Array_sort_Cons: "Array_sort cmp (x # xs) = insert_by cmp x (Array_sort cmp xs)"
  by (simp add: Array_sort_def)

lemma distinct_Array_sort: "distinct (map k (Array_sort cmp xs)) = distinct (map k xs)"
  by (induction xs) (simp_all add: Array_sort_Cons distinct_insert_by)

section \<open>The rounds of the search loop\<close>

lemma update_at_first:
  assumes "\<exists>n \<in> set os. k n = l"
  shows "(map k os)[length (takeWhile (\<lambda>n. k n \<noteq> l) os) := l] = map k os"
proof -
  have less: "length (takeWhile (\<lambda>n. k n \<noteq> l) os) < length os"
    using assms by (metis (mono_tags, lifting) length_takeWhile_le nat_less_le
        takeWhile_eq_all_conv takeWhile_eq_take length_take min.absorb2 take_all_iff)
  from nth_length_takeWhile [OF this] have "k (os ! length (takeWhile (\<lambda>n. k n \<noteq> l) os)) = l"
    by simp
  with less have "map k os ! length (takeWhile (\<lambda>n. k n \<noteq> l) os) = l"
    by simp
  then show ?thesis by (metis list_update_id)
qed

lemma visit_locations:
  assumes l: "l \<in> box s e"
    and os: "location ` set os \<subseteq> box s e"
    and cs: "location ` set cs \<subseteq> box s e"
  shows "map location (visitNeighbor cur e cs os l) =
     (if l \<in> location ` set cs \<or> l \<in> location ` set os then map location os
      else map location os @ [l])"
proof -
  have same_os: "sameSpot l n \<longleftrightarrow> location n = l" if "n \<in> set os" for n
    using that os l by (intro sameSpot_box [of l s e n]) auto
  have same_cs: "sameSpot l n \<longleftrightarrow> location n = l" if "n \<in> set cs" for n
    using that cs l by (intro sameSpot_box [of l s e n]) auto
  have closed: "list_ex (sameSpot l) cs \<longleftrightarrow> l \<in> location ` set cs"
    using same_cs by (auto simp: list_ex_iff)
  have none: "find (sameSpot l) os = None \<longleftrightarrow> l \<notin> location ` set os"
    using same_os by (auto simp: find_None_iff)
  have tw: "takeWhile (\<lambda>n. \<not> sameSpot l n) os = takeWhile (\<lambda>n. location n \<noteq> l) os"
    using same_os by (intro takeWhile_cong) auto
  show ?thesis
  proof (cases "l \<in> location ` set cs")
    case True
    then show ?thesis by (simp add: visitNeighbor_def closed)
  next
    case False
    show ?thesis
    proof (cases "find (sameSpot l) os")
      case None
      with False none show ?thesis
        by (simp add: visitNeighbor_def closed Let_def)
    next
      case (Some e0)
      with none have here: "\<exists>n \<in> set os. location n = l" by auto
      from Some none have "l \<in> location ` set os" by auto
      with False Some update_at_first [OF here] show ?thesis
        by (simp add: visitNeighbor_def closed Let_def tw map_update)
    qed
  qed
qed


text \<open>What the scan of the neighbours keeps of the open set, given a closed set.\<close>

lemma visit_keeps:
  assumes l: "l \<in> box s e"
    and cs: "location ` set cs \<subseteq> box s e"
    and os: "location ` set os \<subseteq> box s e"
    and d: "distinct (map location os)"
    and disj: "location ` set os \<inter> location ` set cs = {}"
  shows "location ` set (visitNeighbor cur e cs os l) \<subseteq> box s e
       \<and> distinct (map location (visitNeighbor cur e cs os l))
       \<and> location ` set (visitNeighbor cur e cs os l) \<inter> location ` set cs = {}"
proof -
  note m = visit_locations [OF l os cs, of cur]
  have img: "location ` set xs = set (map location xs)" for xs :: "PathNode list"
    by simp
  show ?thesis
    unfolding img m using l os d disj by (auto simp: img [symmetric])
qed

lemma scan_keeps:
  assumes "set ls \<subseteq> box s e"
    and "location ` set cs \<subseteq> box s e"
    and "location ` set os \<subseteq> box s e"
    and "distinct (map location os)"
    and "location ` set os \<inter> location ` set cs = {}"
  shows "location ` set (foldl (visitNeighbor cur e cs) os ls) \<subseteq> box s e
       \<and> distinct (map location (foldl (visitNeighbor cur e cs) os ls))
       \<and> location ` set (foldl (visitNeighbor cur e cs) os ls) \<inter> location ` set cs = {}"
  using assms
proof (induction ls arbitrary: os)
  case Nil
  then show ?case by simp
next
  case (Cons l ls)
  from Cons.prems have l: "l \<in> box s e" and ls: "set ls \<subseteq> box s e" by auto
  from visit_keeps [OF l Cons.prems(2) Cons.prems(3) Cons.prems(4) Cons.prems(5), of cur]
  have "location ` set (visitNeighbor cur e cs os l) \<subseteq> box s e"
    and "distinct (map location (visitNeighbor cur e cs os l))"
    and "location ` set (visitNeighbor cur e cs os l) \<inter> location ` set cs = {}"
    by auto
  from Cons.IH [OF ls Cons.prems(2) this] show ?case by simp
qed

lemma walkParents_not_Nil: "walkParents n \<noteq> []"
  by (cases n) simp

declare whileOpen_rounds.simps [simp del]

lemma card_box: "card (box s e) < round_limit s e"
proof -
  have "card (box s e)
          \<le> card ({- bnd (lat s) (lat e) .. bnd (lat s) (lat e)}
                   \<times> {- bnd (lng s) (lng e) .. bnd (lng s) (lng e)})"
    unfolding box_def by (intro card_image_le) simp
  also have "\<dots> = nat (2 * bnd (lat s) (lat e) + 1) * nat (2 * bnd (lng s) (lng e) + 1)"
    by (simp add: card_cartesian_product)
  also have "\<dots> = nat ((2 * bnd (lat s) (lat e) + 1) * (2 * bnd (lng s) (lng e) + 1))"
    using bnd_pos [of "lat s" "lat e"] bnd_pos [of "lng s" "lng e"]
    by (simp add: nat_mult_distrib)
  finally show ?thesis by (simp add: round_limit_def)
qed

text \<open>
  A round that starts from a state with the invariant either breaks, having pushed
  something on the path, or hands over a state with the invariant, a non-empty open
  set and one more node in the closed set.
\<close>

lemma whileBody_round:
  assumes "search_inv s e os cs" and "os \<noteq> []"
  shows "(\<exists>p t. whileBody s e os cs pathAcc totalAcc = Break (pathAcc @ p, t) \<and> p \<noteq> [])
       \<or> (\<exists>os2 cs1. whileBody s e os cs pathAcc totalAcc = Again os2 cs1
              \<and> search_inv s e os2 cs1 \<and> os2 \<noteq> []
              \<and> length cs1 = Suc (length cs) \<and> length cs1 \<le> card (box s e))"
proof -
  let ?cmp = "\<lambda>a b. Fin (f a - f b)"
  from assms have os: "location ` set os \<subseteq> box s e"
    and cs: "location ` set cs \<subseteq> box s e"
    and dos: "distinct (map location os)"
    and dcs: "distinct (map location cs)"
    and disj: "location ` set os \<inter> location ` set cs = {}"
    by (auto simp: search_inv_def)
  from assms(2) have "Array_sort ?cmp os \<noteq> []"
    by (metis length_Array_sort length_0_conv)
  then obtain current os1 where sorted: "Array_sort ?cmp os = current # os1"
    by (cases "Array_sort ?cmp os") auto
  have set_os: "set os = insert current (set os1)"
    using set_Array_sort [of ?cmp os] sorted by simp
  have dsorted: "distinct (map location (current # os1))"
    using distinct_Array_sort [of location ?cmp os] dos sorted by simp
  show ?thesis
  proof (cases "haversineDistance (location current) e < 0.1")
    case True
    with sorted
    have "whileBody s e os cs pathAcc totalAcc
            = Break (pathAcc @ walkParents current, totalAcc + g current)"
      by (simp add: whileBody_def)
    with walkParents_not_Nil show ?thesis by blast
  next
    case False
    define cs1 where "cs1 = cs @ [current]"
    define os2 where
      "os2 = foldl (visitNeighbor current e cs1) os1 (generateNeighbors (location current) e)"
    have cur_box: "location current \<in> box s e"
      using os set_os by auto
    have cur_new: "location current \<notin> location ` set cs"
      using disj set_os by auto
    have cs1: "location ` set cs1 \<subseteq> box s e"
      using cs cur_box by (auto simp: cs1_def)
    have dcs1: "distinct (map location cs1)"
      using dcs cur_new by (simp add: cs1_def)
    have os1: "location ` set os1 \<subseteq> box s e"
      using os set_os by auto
    have dos1: "distinct (map location os1)"
      using dsorted by simp
    have disj1: "location ` set os1 \<inter> location ` set cs1 = {}"
      using disj set_os dsorted by (auto simp: cs1_def)
    from scan_keeps [OF neighbors_in_box [OF cur_box] cs1 os1 dos1 disj1, of current]
    have inv2: "search_inv s e os2 cs1"
      unfolding search_inv_def os2_def using cs1 dcs1 by simp
    have "length cs1 = card (location ` set cs1)"
      using dcs1 distinct_card [of "map location cs1"] by simp
    also have "\<dots> \<le> card (box s e)"
      using cs1 finite_box by (intro card_mono) auto
    finally have le: "length cs1 \<le> card (box s e)" .
    have body: "whileBody s e os cs pathAcc totalAcc =
        (if length os2 = 0
         then Break (pathAcc @ [s, e], totalAcc + haversineDistance s e)
         else Again os2 cs1)"
      using sorted False by (simp add: whileBody_def Let_def os2_def cs1_def)
    show ?thesis
    proof (cases "os2 = []")
      case True
      with body show ?thesis by simp
    next
      case False
      with body inv2 le show ?thesis by (simp add: cs1_def)
    qed
  qed
qed

lemma rounds_enough:
  assumes "search_inv s e os cs" and "os \<noteq> []" and "card (box s e) - length cs < n"
  shows "\<exists>p t. whileOpen_rounds n s e os cs pathAcc totalAcc = Some (pathAcc @ p, t) \<and> p \<noteq> []"
  using assms
proof (induction n arbitrary: os cs)
  case 0
  then show ?case by simp
next
  case (Suc n)
  note unfold = whileOpen_rounds.simps [of "Suc n" s e os cs pathAcc totalAcc]
  from whileBody_round [OF Suc.prems(1) Suc.prems(2), of pathAcc totalAcc]
  show ?case
  proof
    assume "\<exists>p t. whileBody s e os cs pathAcc totalAcc = Break (pathAcc @ p, t) \<and> p \<noteq> []"
    with Suc.prems(2) unfold show ?thesis by auto
  next
    assume "\<exists>os2 cs1. whileBody s e os cs pathAcc totalAcc = Again os2 cs1
              \<and> search_inv s e os2 cs1 \<and> os2 \<noteq> []
              \<and> length cs1 = Suc (length cs) \<and> length cs1 \<le> card (box s e)"
    then obtain os2 cs1 where body: "whileBody s e os cs pathAcc totalAcc = Again os2 cs1"
      and inv2: "search_inv s e os2 cs1" and ne: "os2 \<noteq> []"
      and len: "length cs1 = Suc (length cs)" and le: "length cs1 \<le> card (box s e)"
      by blast
    from Suc.prems(3) len le have "card (box s e) - length cs1 < n" by simp
    from Suc.IH [OF inv2 ne this] body Suc.prems(2) unfold show ?thesis by simp
  qed
qed

lemma rounds_sound:
  "whileOpen_rounds n s e os cs pathAcc totalAcc = Some r
     \<Longrightarrow> whileOpen s e os cs pathAcc totalAcc = Some r"
proof (induction n arbitrary: os cs)
  case 0
  then show ?case
    by (subst whileOpen.simps) (simp add: whileOpen_rounds.simps split: if_splits)
next
  case (Suc n)
  note unfold = whileOpen_rounds.simps [of "Suc n" s e os cs pathAcc totalAcc]
  show ?case
  proof (cases "whileBody s e os cs pathAcc totalAcc")
    case (Break x)
    with Suc.prems unfold show ?thesis
      by (subst whileOpen.simps) (simp split: if_splits)
  next
    case (Again os2 cs1)
    with Suc.prems unfold Suc.IH [of os2 cs1] show ?thesis
      by (subst whileOpen.simps) (simp split: if_splits)
  next
    case Throw
    with Suc.prems unfold show ?thesis
      by (subst whileOpen.simps) (simp split: if_splits)
  qed
qed

lemma whileOpen_returns:
  assumes "search_inv s e os cs" and "os \<noteq> []"
  shows "\<exists>p t. whileOpen s e os cs pathAcc totalAcc = Some (pathAcc @ p, t) \<and> p \<noteq> []
           \<and> whileOpen_rounds (round_limit s e) s e os cs pathAcc totalAcc
               = Some (pathAcc @ p, t)"
proof -
  have "card (box s e) - length cs < round_limit s e"
    using card_box [of s e] by simp
  from rounds_enough [OF assms this, of pathAcc totalAcc] obtain p t
    where r: "whileOpen_rounds (round_limit s e) s e os cs pathAcc totalAcc
                = Some (pathAcc @ p, t)" and p: "p \<noteq> []"
    by blast
  from rounds_sound [OF r] r p show ?thesis by simp
qed

section \<open>Segments within the goal tolerance\<close>

lemma whileOpen_near:
  assumes "haversineDistance a b < 0.1"
  shows "whileOpen a b [PathNode a 0 hv fv None] [] pathAcc totalAcc = Some (pathAcc @ [a], totalAcc)"
  using assms by (subst whileOpen.simps) (simp add: whileBody_def)

lemma segmentSearch_near:
  assumes "haversineDistance a b < 0.1"
  shows "segmentSearch a b pathAcc totalAcc = Some (pathAcc @ [a], totalAcc)"
  using assms by (simp add: segmentSearch_def Let_def whileOpen_near)

lemma astar_same: "astarPathfinding a a [] = Some \<lparr>path = [a], totalDistance = 0\<rparr>"
  by (simp add: astarPathfinding_def segmentSearch_near haversine_self)

lemma astar_via_near:
  assumes "haversineDistance a w < 0.1" and "haversineDistance w b < 0.1"
  shows "astarPathfinding a b [w] = Some \<lparr>path = [w, a], totalDistance = 0\<rparr>"
  using assms by (simp add: astarPathfinding_def segmentSearch_near)

lemma haversine_equator:
  assumes "0 \<le> d" and "d < 180"
  shows "haversineDistance \<lparr>lat = 0, lng = x\<rparr> \<lparr>lat = 0, lng = x + d\<rparr> = 6371 * (d * pi / 180)"
proof -
  define t where "t = d * pi / 360"
  have t0: "0 \<le> t" using assms by (simp add: t_def)
  have t1: "t < pi / 2" using assms pi_gt_zero by (simp add: t_def field_simps)
  have s: "0 \<le> sin t" using t0 t1 by (intro sin_ge_zero) auto
  have c: "0 < cos t" using t0 t1 by (intro cos_gt_zero_pi) auto
  have a: "sqrt (sin t * sin t) = sin t" using s by (simp add: real_sqrt_mult_self)
  have "1 - sin t * sin t = cos t * cos t"
    using sin_cos_squared_add [of t] by (simp add: power2_eq_square algebra_simps)
  then have b: "sqrt (1 - sin t * sin t) = cos t" using c by (simp add: real_sqrt_mult_self)
  have "arctan (tan t) = t"
    using t0 t1 by (intro arctan_tan) auto
  then have "atan2 (sin t) (cos t) = t"
    using c by (simp add: atan2_def tan_def)
  then have at: "atan2 (sqrt (sin t * sin t)) (sqrt (1 - sin t * sin t)) = t"
    by (simp only: a b)
  have "haversineDistance \<lparr>lat = 0, lng = x\<rparr> \<lparr>lat = 0, lng = x + d\<rparr>
          = 6371 * (2 * atan2 (sqrt (sin t * sin t)) (sqrt (1 - sin t * sin t)))"
    by (simp add: haversineDistance_def toRadians_def Let_def EARTH_RADIUS_KM_def t_def)
  also have "\<dots> = 6371 * (2 * t)"
    by (simp only: at)
  also have "\<dots> = 6371 * (d * pi / 180)"
    by (simp add: t_def)
  finally show ?thesis .
qed

lemma near_east:
  assumes "0 \<le> d" and "d \<le> 0.0005"
  shows "haversineDistance (east x) (east (x + d)) < 0.1"
proof -
  have "haversineDistance (east x) (east (x + d)) = 6371 * (d * pi / 180)"
    using assms by (simp add: east_def haversine_equator)
  also have "\<dots> \<le> 6371 * (0.0005 * pi / 180)"
    using assms by simp
  also have "\<dots> < 0.1"
    using pi_less_4 by simp
  finally show ?thesis .
qed

section \<open>The pathfinder returns\<close>

lemma segmentSearch_returns:
  "\<exists>p t. segmentSearch a b pathAcc totalAcc = Some (pathAcc @ p, t) \<and> p \<noteq> []"
proof -
  have "search_inv a b [PathNode a 0 hv fv None] []" for hv fv
    by (simp add: search_inv_def start_in_box)
  from whileOpen_returns [OF this, of _ _ pathAcc totalAcc] show ?thesis
    by (simp add: segmentSearch_def Let_def) blast
qed

lemma segmentSearch_rounds:
  "segmentSearch a b pathAcc totalAcc
     = whileOpen_rounds (round_limit a b) a b
         [PathNode a 0 (haversineDistance a b) (0 + haversineDistance a b) None] []
         pathAcc totalAcc"
proof -
  have "search_inv a b [PathNode a 0 hv fv None] []" for hv fv
    by (simp add: search_inv_def start_in_box)
  from whileOpen_returns [OF this, of _ _ pathAcc totalAcc] show ?thesis
    by (simp add: segmentSearch_def Let_def) (metis list.discI)
qed

lemma forSegments_returns:
  "\<exists>p t. forSegments pts pathAcc totalAcc = Some (pathAcc @ p, t)
         \<and> (2 \<le> length pts \<longrightarrow> p \<noteq> [])"
proof (induction pts pathAcc totalAcc rule: forSegments.induct)
  case (1 a b rest pathAcc totalAcc)
  from segmentSearch_returns [of a b pathAcc totalAcc] obtain p t
    where seg: "segmentSearch a b pathAcc totalAcc = Some (pathAcc @ p, t)" and p: "p \<noteq> []"
    by blast
  from "1" [OF seg refl] obtain q u
    where "forSegments (b # rest) (pathAcc @ p) t = Some ((pathAcc @ p) @ q, u)"
    by blast
  with seg p show ?case by simp
qed simp_all

lemma astar_returns:
  "\<exists>res. astarPathfinding start goal waypoints = Some res \<and> path res \<noteq> []"
proof -
  from forSegments_returns [of "[start] @ waypoints @ [goal]" "[]" 0] obtain p t
    where "forSegments ([start] @ waypoints @ [goal]) [] 0 = Some (p, t)" and "p \<noteq> []"
    by auto
  then show ?thesis by (simp add: astarPathfinding_def)
qed

text \<open>
  C3.  For every start, goal and list of waypoints the pathfinder returns, and the
  path it returns is not empty: no round of a search loop throws and no loop runs on
  for ever.  The number of rounds is bounded: the search of the segment from \<open>a\<close> to
  \<open>b\<close> has a result, and it is the result of the loop given up after \<open>round_limit a b\<close>
  rounds, a number that depends only on how far apart \<open>a\<close> and \<open>b\<close> are.  For start and
  goal both at \<open>(0, 0)\<close> the path has at least one point and the total distance is 0.
\<close>

theorem astarPathfinding_total:
  "(\<exists>res. astarPathfinding start goal waypoints = Some res \<and> path res \<noteq> [])
   \<and> (segmentSearch a b pathAcc totalAcc \<noteq> None
        \<and> whileOpen_rounds (round_limit a b) a b
              [PathNode a 0 (haversineDistance a b) (0 + haversineDistance a b) None] []
              pathAcc totalAcc
            = segmentSearch a b pathAcc totalAcc)
   \<and> (\<exists>res. astarPathfinding origin origin [] = Some res
          \<and> 1 \<le> length (path res) \<and> totalDistance res = 0)"
proof -
  have "segmentSearch a b pathAcc totalAcc \<noteq> None"
    using segmentSearch_returns [of a b pathAcc totalAcc] by auto
  with astar_returns [of start goal waypoints] astar_same [of origin]
    segmentSearch_rounds [of a b pathAcc totalAcc]
  show ?thesis by simp
qed

theorem astarPathfinding_total_witness:
  "(\<exists>res. astarPathfinding origin \<lparr>lat = 10, lng = 20\<rparr> [east 3, east 4] = Some res
          \<and> path res \<noteq> [])
   \<and> round_limit origin (east 0.02) = 22
   \<and> whileOpen_rounds 22 origin (east 0.02)
        [PathNode origin 0 (haversineDistance origin (east 0.02))
           (0 + haversineDistance origin (east 0.02)) None] [] [] 0 \<noteq> None
   \<and> astarPathfinding origin origin [] = Some \<lparr>path = [origin], totalDistance = 0\<rparr>"
proof -
  have r: "round_limit origin (east 0.02) = 22"
    by (simp add: round_limit_def bnd_def origin_def east_def)
  from astarPathfinding_total
         [of origin "\<lparr>lat = 10, lng = 20\<rparr>" "[east 3, east 4]" origin "east 0.02" "[]" 0]
    astar_same [of origin] r
  show ?thesis by simp
qed

section \<open>The proximity matcher\<close>




section \<open>When the open set runs empty\<close>

lemma whileBody_break:
  assumes "whileBody s e os cs pathAcc totalAcc = Break r"
  shows "(\<exists>cur \<in> set os. haversineDistance (location cur) e < 0.1)
       \<or> r = (pathAcc @ [s, e], totalAcc + haversineDistance s e)"
proof (cases "Array_sort (\<lambda>a b. Fin (f a - f b)) os")
  case Nil
  with assms show ?thesis by (simp add: whileBody_def)
next
  case (Cons cur os1)
  then have "cur \<in> set os"
    using set_Array_sort [of "\<lambda>a b. Fin (f a - f b)" os] by auto
  with assms Cons show ?thesis
    by (auto simp: whileBody_def Let_def split: if_splits)
qed

lemma rounds_fallback:
  assumes "search_inv s e os cs" and "os \<noteq> []"
    and "\<forall>l \<in> box s e. \<not> haversineDistance l e < 0.1"
    and "whileOpen_rounds n s e os cs pathAcc totalAcc = Some r"
  shows "r = (pathAcc @ [s, e], totalAcc + haversineDistance s e)"
  using assms
proof (induction n arbitrary: os cs)
  case 0
  then show ?case by (simp add: whileOpen_rounds.simps)
next
  case (Suc n)
  note unfold = whileOpen_rounds.simps [of "Suc n" s e os cs pathAcc totalAcc]
  from Suc.prems(1) have inbox: "location ` set os \<subseteq> box s e"
    by (simp add: search_inv_def)
  show ?case
  proof (cases "whileBody s e os cs pathAcc totalAcc")
    case (Break x)
    with Suc.prems(2,4) unfold have "x = r" by simp
    with whileBody_break [OF Break] inbox Suc.prems(3) show ?thesis by auto
  next
    case (Again os2 cs1)
    from whileBody_round [OF Suc.prems(1) Suc.prems(2), of pathAcc totalAcc] Again
    have inv2: "search_inv s e os2 cs1" and ne: "os2 \<noteq> []" by auto
    from Again Suc.prems(2,4) unfold
    have "whileOpen_rounds n s e os2 cs1 pathAcc totalAcc = Some r" by simp
    from Suc.IH [OF inv2 ne Suc.prems(3) this] show ?thesis .
  next
    case Throw
    with Suc.prems(2,4) unfold show ?thesis by simp
  qed
qed

lemma astar_fallback:
  assumes "\<forall>l \<in> box a b. \<not> haversineDistance l b < 0.1"
  shows "astarPathfinding a b [] = Some \<lparr>path = [b, a], totalDistance = haversineDistance a b\<rparr>"
proof -
  let ?start = "PathNode a 0 (haversineDistance a b) (0 + haversineDistance a b) None"
  have inv: "search_inv a b [?start] []"
    by (simp add: search_inv_def start_in_box)
  from whileOpen_returns [OF inv, of "[]" 0] obtain p t
    where w: "whileOpen a b [?start] [] [] 0 = Some ([] @ p, t)"
      and r: "whileOpen_rounds (round_limit a b) a b [?start] [] [] 0 = Some ([] @ p, t)"
    by auto
  from rounds_fallback [OF inv _ assms r] have "([] @ p, t) = ([] @ [a, b], 0 + haversineDistance a b)"
    by simp
  with w show ?thesis
    by (simp add: astarPathfinding_def segmentSearch_def Let_def)
qed


section \<open>Lower bounds on the distance\<close>

lemma atan2_lower:
  assumes t0: "0 \<le> t" and t1: "t < pi / 2" and a: "sin t * sin t \<le> a"
  shows "t \<le> atan2 (sqrt a) (sqrt (1 - a))"
proof -
  have s0: "0 \<le> sin t" using t0 t1 by (intro sin_ge_zero) auto
  have c0: "0 < cos t" using t0 t1 by (intro cos_gt_zero_pi) auto
  have "sqrt (sin t * sin t) \<le> sqrt a" using a by (rule real_sqrt_le_mono)
  then have ya: "sin t \<le> sqrt a" using s0 by (simp add: real_sqrt_mult_self)
  have at: "arctan (tan t) = t" using t0 t1 by (intro arctan_tan) auto
  show ?thesis
  proof (cases "0 < 1 - a")
    case True
    have "1 - a \<le> cos t * cos t"
      using a sin_cos_squared_add [of t] by (simp add: power2_eq_square)
    then have "sqrt (1 - a) \<le> sqrt (cos t * cos t)" by (rule real_sqrt_le_mono)
    then have xc: "sqrt (1 - a) \<le> cos t" using c0 by (simp add: real_sqrt_mult_self)
    have x0: "0 < sqrt (1 - a)" using True by simp
    have "0 \<le> sqrt a" using s0 ya by linarith
    then have "tan t \<le> sqrt a / sqrt (1 - a)"
      unfolding tan_def using ya x0 xc by (rule frac_le)
    then have "arctan (tan t) \<le> arctan (sqrt a / sqrt (1 - a))"
      by (simp only: arctan_le_iff)
    with at x0 show ?thesis by (simp add: atan2_def)
  next
    case False
    then have x: "sqrt (1 - a) \<le> 0" by simp
    have y: "0 \<le> sqrt a" using False by simp
    have y1: "0 < sqrt a" using False by simp
    show ?thesis
    proof (cases "sqrt (1 - a) = 0")
      case True
      with y1 t1 show ?thesis by (simp add: atan2_def)
    next
      case False
      with x have "sqrt (1 - a) < 0" by simp
      moreover have "- (pi / 2) < arctan (sqrt a / sqrt (1 - a))" by (rule arctan_lbound)
      ultimately show ?thesis using y t1 by (simp add: atan2_def)
    qed
  qed
qed

lemma haversine_lower:
  assumes "0 \<le> t" and "t < pi / 2"
    and "sin t * sin t \<le>
           sin (toRadians (lat l2 - lat l1) / 2) * sin (toRadians (lat l2 - lat l1) / 2) +
           cos (toRadians (lat l1)) * cos (toRadians (lat l2)) *
           sin (toRadians (lng l2 - lng l1) / 2) * sin (toRadians (lng l2 - lng l1) / 2)"
  shows "6371 * (2 * t) \<le> haversineDistance l1 l2"
  using atan2_lower [OF assms]
  by (simp add: haversineDistance_def Let_def EARTH_RADIUS_KM_def)

lemma sin_sq_mono:
  assumes "0 \<le> t" and "t \<le> \<bar>u\<bar>" and "\<bar>u\<bar> \<le> pi / 2"
  shows "sin t * sin t \<le> sin u * sin u"
proof -
  have "sin t \<le> sin \<bar>u\<bar>"
    using assms by (subst sin_mono_le_eq) auto
  moreover have "0 \<le> sin t" using assms by (intro sin_ge_zero) auto
  ultimately have "sin t * sin t \<le> sin \<bar>u\<bar> * sin \<bar>u\<bar>"
    by (intro mult_mono) auto
  also have "\<dots> = sin u * sin u"
    by (cases "0 \<le> u") simp_all
  finally show ?thesis .
qed

lemma cos_latitude:
  assumes "\<bar>x\<bar> \<le> 90"
  shows "0 \<le> cos (toRadians x)"
proof -
  have "(- 90) * (pi / 180) \<le> x * (pi / 180)"
    using assms by (intro mult_right_mono) auto
  moreover have "x * (pi / 180) \<le> 90 * (pi / 180)"
    using assms by (intro mult_right_mono) auto
  ultimately show ?thesis
    unfolding toRadians_def by (intro cos_ge_zero) simp_all
qed

lemma far_in_latitude:
  assumes "\<bar>lat l1\<bar> \<le> 90" and "\<bar>lat l2\<bar> \<le> 90" and "0.01 \<le> \<bar>lat l2 - lat l1\<bar>"
  shows "\<not> haversineDistance l1 l2 < 0.1"
proof -
  define t where "t = 0.005 * (pi / 180)"
  define u where "u = toRadians (lat l2 - lat l1) / 2"
  have t0: "0 \<le> t" and t1: "t < pi / 2" by (simp_all add: t_def)
  have u: "\<bar>u\<bar> = \<bar>lat l2 - lat l1\<bar> * (pi / 360)"
    by (simp add: u_def toRadians_def abs_mult)
  have d: "\<bar>lat l2 - lat l1\<bar> \<le> 180" using assms by linarith
  have "0.01 * (pi / 360) \<le> \<bar>lat l2 - lat l1\<bar> * (pi / 360)"
    using assms(3) by (intro mult_right_mono) simp_all
  then have tu: "t \<le> \<bar>u\<bar>" by (simp add: t_def u)
  have "\<bar>lat l2 - lat l1\<bar> * (pi / 360) \<le> 180 * (pi / 360)"
    using d by (intro mult_right_mono) simp_all
  then have u1: "\<bar>u\<bar> \<le> pi / 2" by (simp add: u)
  have c1: "0 \<le> cos (toRadians (lat l1))"
    using assms(1) by (rule cos_latitude)
  have c2: "0 \<le> cos (toRadians (lat l2))"
    using assms(2) by (rule cos_latitude)
  have "0 \<le> cos (toRadians (lat l1)) * cos (toRadians (lat l2)) *
           (sin (toRadians (lng l2 - lng l1) / 2) * sin (toRadians (lng l2 - lng l1) / 2))"
    by (rule mult_nonneg_nonneg [OF mult_nonneg_nonneg [OF c1 c2] zero_le_square])
  with sin_sq_mono [OF t0 tu u1]
  have "sin t * sin t \<le>
           sin (toRadians (lat l2 - lat l1) / 2) * sin (toRadians (lat l2 - lat l1) / 2) +
           cos (toRadians (lat l1)) * cos (toRadians (lat l2)) *
           sin (toRadians (lng l2 - lng l1) / 2) * sin (toRadians (lng l2 - lng l1) / 2)"
    by (simp add: u_def mult.assoc)
  from haversine_lower [OF t0 t1 this] have "6371 * (2 * t) \<le> haversineDistance l1 l2" .
  moreover have "0.1 \<le> 6371 * (2 * t)"
    using pi_ge_two by (simp add: t_def)
  ultimately show ?thesis by simp
qed

lemma far_on_equator:
  assumes "lat l1 = 0" and "lat l2 = 0"
    and "0.005 \<le> \<bar>lng l2 - lng l1\<bar>" and "\<bar>lng l2 - lng l1\<bar> \<le> 180"
  shows "\<not> haversineDistance l1 l2 < 0.1"
proof -
  define t where "t = 0.0025 * (pi / 180)"
  define u where "u = toRadians (lng l2 - lng l1) / 2"
  have t0: "0 \<le> t" and t1: "t < pi / 2" by (simp_all add: t_def)
  have u: "\<bar>u\<bar> = \<bar>lng l2 - lng l1\<bar> * (pi / 360)"
    by (simp add: u_def toRadians_def abs_mult)
  have "0.005 * (pi / 360) \<le> \<bar>lng l2 - lng l1\<bar> * (pi / 360)"
    using assms(3) by (intro mult_right_mono) simp_all
  then have tu: "t \<le> \<bar>u\<bar>" by (simp add: t_def u)
  have "\<bar>lng l2 - lng l1\<bar> * (pi / 360) \<le> 180 * (pi / 360)"
    using assms(4) by (intro mult_right_mono) simp_all
  then have u1: "\<bar>u\<bar> \<le> pi / 2" by (simp add: u)
  from sin_sq_mono [OF t0 tu u1] assms(1,2)
  have "sin t * sin t \<le>
           sin (toRadians (lat l2 - lat l1) / 2) * sin (toRadians (lat l2 - lat l1) / 2) +
           cos (toRadians (lat l1)) * cos (toRadians (lat l2)) *
           sin (toRadians (lng l2 - lng l1) / 2) * sin (toRadians (lng l2 - lng l1) / 2)"
    by (simp add: u_def toRadians_def)
  from haversine_lower [OF t0 t1 this] have "6371 * (2 * t) \<le> haversineDistance l1 l2" .
  moreover have "0.1 \<le> 6371 * (2 * t)"
    using pi_ge_two by (simp add: t_def)
  ultimately show ?thesis by simp
qed

lemma ex_unreachable: "\<forall>l \<in> box origin (east 0.005). \<not> haversineDistance l (east 0.005) < 0.1"
proof
  fix l assume "l \<in> box origin (east 0.005)"
  then obtain i j where i: "\<bar>i\<bar> \<le> bnd (lat origin) (lat (east 0.005))"
    and j: "\<bar>j\<bar> \<le> bnd (lng origin) (lng (east 0.005))" and l: "l = gridpt origin i j"
    unfolding box_iff by blast
  from i have i1: "\<bar>i\<bar> \<le> 1" by (simp add: bnd_def origin_def east_def)
  have "\<lceil>(1::real) / 2\<rceil> = 1" by (rule ceiling_unique) simp_all
  with j have j2: "\<bar>j\<bar> \<le> 2" by (simp add: bnd_def origin_def east_def)
  show "\<not> haversineDistance l (east 0.005) < 0.1"
  proof (cases "i = 0")
    case True
    have "j \<le> 0 \<or> 1 \<le> j" by linarith
    then have "0.005 \<le> \<bar>0.005 - 0.01 * real_of_int j\<bar>"
      by (auto simp: abs_if) 
    moreover have "- 2 \<le> real_of_int j \<and> real_of_int j \<le> 2"
      using j2 by linarith
    then have "\<bar>0.005 - 0.01 * real_of_int j\<bar> \<le> 180"
      by (auto simp: abs_le_iff)
    ultimately show ?thesis
      using True by (intro far_on_equator) (simp_all add: l gridpt_def origin_def east_def)
  next
    case False
    with i1 have "\<bar>real_of_int i\<bar> = 1" by linarith
    then have "\<bar>0.01 * real_of_int i\<bar> = 0.01" by (simp add: abs_mult)
    then show ?thesis
      by (intro far_in_latitude) (simp_all add: l gridpt_def origin_def east_def)
  qed
qed

section \<open>The order of the returned path\<close>

text \<open>
  C4.  The returned path is not always in travel order.  With a waypoint \<open>w\<close> that is
  within the goal tolerance of the start \<open>a\<close>, and the goal \<open>b\<close> within the tolerance of
  \<open>w\<close>, each segment pushes its own start, and the reversed path is \<open>[w, a]\<close>: it begins
  at the waypoint and ends at the start.  Without waypoints, when no grid point that the
  search can reach is within the tolerance of the goal, the open set runs empty, the
  fallback pushes start and goal, and the reversed path is \<open>[b, a]\<close>: it begins at the
  goal and ends at the start.
\<close>

theorem astarPathfinding_order:
  "(haversineDistance a w < 0.1 \<and> haversineDistance w b < 0.1
      \<longrightarrow> astarPathfinding a b [w] = Some \<lparr>path = [w, a], totalDistance = 0\<rparr>)
   \<and> ((\<forall>l \<in> box a b. \<not> haversineDistance l b < 0.1)
      \<longrightarrow> astarPathfinding a b []
            = Some \<lparr>path = [b, a], totalDistance = haversineDistance a b\<rparr>)"
  using astar_via_near astar_fallback by blast

theorem astarPathfinding_order_witness:
  "astarPathfinding (east 0) (east 0.001) [east 0.0005]
     = Some \<lparr>path = [east 0.0005, east 0], totalDistance = 0\<rparr>
   \<and> east 0.0005 \<noteq> east 0
   \<and> astarPathfinding origin (east 0.005) []
       = Some \<lparr>path = [east 0.005, origin],
               totalDistance = haversineDistance origin (east 0.005)\<rparr>
   \<and> east 0.005 \<noteq> origin
   \<and> \<not> haversineDistance origin (east 0.005) < 0.1"
proof -
  have far: "\<not> haversineDistance origin (east 0.005) < 0.1"
    using ex_unreachable start_in_box [of origin "east 0.005"] by blast
  from astarPathfinding_order [of "east 0" "east 0.0005" "east 0.001"]
    near_east [of "0.0005" 0] near_east [of "0.0005" "0.0005"]
  have one: "astarPathfinding (east 0) (east 0.001) [east 0.0005]
     = Some \<lparr>path = [east 0.0005, east 0], totalDistance = 0\<rparr>"
    by simp
  from astarPathfinding_order [of origin _ "east 0.005"] ex_unreachable
  have two: "astarPathfinding origin (east 0.005) []
       = Some \<lparr>path = [east 0.005, origin],
               totalDistance = haversineDistance origin (east 0.005)\<rparr>"
    by blast
  from one two far show ?thesis
    by (simp add: east_def origin_def)
qed

section \<open>The matches\<close>













section \<open>The distance rule and numbers that are not numbers\<close>

lemma fmul_NaN [simp]: "fmul x NaN = NaN"
  by (simp add: fmul_def)

lemma haversine_sqrt_negative:
  assumes "fsub (Fin 1) (haversine_a m loc1 loc2) = Fin d" and "d < 0"
  shows "haversineDistance_js m loc1 loc2 = NaN"
  using assms by (simp add: haversineDistance_js_def Let_def Math_sqrt_def Math_atan2_def)

lemma deductive_js_member:
  "r \<in> set (deductiveFiltering_js m rides p loc dest) \<longleftrightarrow>
     r \<in> set rides
     \<and> \<not> (Ride.price r > maxPrice (UserProfile.preferences p)
          \<or> Driver.rating (Ride.driver r) < preferredDriverRatings (UserProfile.preferences p)
          \<or> (preferredVehicleTypes (UserProfile.preferences p) \<noteq> []
               \<and> Ride.vehicle_type r \<notin> set (preferredVehicleTypes (UserProfile.preferences p)))
          \<or> smokingPreference (UserProfile.preferences p)
               \<noteq> smokingAllowed (Driver.preferences (Ride.driver r))
          \<or> js_gt (haversineDistance_js m loc
                      \<lparr>lat = Ride.pickup_lat r, lng = Ride.pickup_lng r\<rparr>) 5)"
  by (auto simp: deductiveFiltering_js_def Let_def)

text \<open>
  The sine and the cosine at the arguments that occur for the two opposite points, to
  within half the distance between neighbouring doubles, from their Maclaurin
  polynomials with the powers enclosed step by step.
\<close>

lemma sin_half_dLat_near:
  "\<bar>sin (6445416618514801 / 2 ^ 52 :: real) - 4459770905381437 / 2 ^ 52\<bar> < 1 / 2 ^ 54"
proof -
  define x :: real where "x = 6445416618514801 / 2 ^ 52"
  have x1: "x = 6445416618514801 / 4503599627370496"
    by (simp add: x_def)
  have sq: "x ^ 2 = 41543395386226771764991056069601 / 20282409603651670423947251286016"
    by (simp add: x_def power_divide)
  have x0: "0 \<le> x"
    by (simp add: x_def)
  have p3: "3715978788730827438707586148677 / 1267650600228229401496703205376 \<le> x ^ 3 \<and> x ^ 3 \<le> 1857989394365413719353793074339 / 633825300114114700748351602688"
  proof -
    have "x ^ 3 = x ^ 1 * (41543395386226771764991056069601 / 20282409603651670423947251286016)"
      by (simp add: power2_eq_square power3_eq_cube flip: sq)
    with x1 show ?thesis
      by simp
  qed
  have p5: "475702773621887141608908088675 / 79228162514264337593543950336 \<le> x ^ 5 \<and> x ^ 5 \<le> 7611244377950194265742529418803 / 1267650600228229401496703205376"
  proof -
    have "x ^ 5 = x ^ 3 * (41543395386226771764991056069601 / 20282409603651670423947251286016)"
      by (simp flip: sq power_add)
    with p3 show ?thesis
      by simp
  qed
  have p7: "15589712502278430658268879066255 / 1267650600228229401496703205376 \<le> x ^ 7 \<and> x ^ 7 \<le> 7794856251139215329134439533131 / 633825300114114700748351602688"
  proof -
    have "x ^ 7 = x ^ 5 * (41543395386226771764991056069601 / 20282409603651670423947251286016)"
      by (simp flip: sq power_add)
    with p5 show ?thesis
      by simp
  qed
  have p9: "31931590136270196122341866705483 / 1267650600228229401496703205376 \<le> x ^ 9 \<and> x ^ 9 \<le> 15965795068135098061170933352749 / 633825300114114700748351602688"
  proof -
    have "x ^ 9 = x ^ 7 * (41543395386226771764991056069601 / 20282409603651670423947251286016)"
      by (simp flip: sq power_add)
    with p7 show ?thesis
      by simp
  qed
  have p11: "8175475080776265579034539073847 / 158456325028528675187087900672 \<le> x ^ 11 \<and> x ^ 11 \<le> 65403800646210124632276312590807 / 1267650600228229401496703205376"
  proof -
    have "x ^ 11 = x ^ 9 * (41543395386226771764991056069601 / 20282409603651670423947251286016)"
      by (simp flip: sq power_add)
    with p9 show ?thesis
      by simp
  qed
  have p13: "133963173168451932258941119543009 / 1267650600228229401496703205376 \<le> x ^ 13 \<and> x ^ 13 \<le> 66981586584225966129470559771537 / 633825300114114700748351602688"
  proof -
    have "x ^ 13 = x ^ 11 * (41543395386226771764991056069601 / 20282409603651670423947251286016)"
      by (simp flip: sq power_add)
    with p11 show ?thesis
      by simp
  qed
  have p15: "137194869319880591884079177486439 / 633825300114114700748351602688 \<le> x ^ 15 \<and> x ^ 15 \<le> 274389738639761183768158354973013 / 1267650600228229401496703205376"
  proof -
    have "x ^ 15 = x ^ 13 * (41543395386226771764991056069601 / 20282409603651670423947251286016)"
      by (simp flip: sq power_add)
    with p13 show ?thesis
      by simp
  qed
  have p17: "562018104603445126801871116536313 / 1267650600228229401496703205376 \<le> x ^ 17 \<and> x ^ 17 \<le> 562018104603445126801871116536591 / 1267650600228229401496703205376"
  proof -
    have "x ^ 17 = x ^ 15 * (41543395386226771764991056069601 / 20282409603651670423947251286016)"
      by (simp flip: sq power_add)
    with p15 show ?thesis
      by simp
  qed
  have p19: "1151152194932255438442916103728803 / 1267650600228229401496703205376 \<le> x ^ 19 \<and> x ^ 19 \<le> 1151152194932255438442916103729373 / 1267650600228229401496703205376"
  proof -
    have "x ^ 19 = x ^ 17 * (41543395386226771764991056069601 / 20282409603651670423947251286016)"
      by (simp flip: sq power_add)
    with p17 show ?thesis
      by simp
  qed
  have p21: "1178922320333758826180417319056459 / 633825300114114700748351602688 \<le> x ^ 21 \<and> x ^ 21 \<le> 1178922320333758826180417319057043 / 633825300114114700748351602688"
  proof -
    have "x ^ 21 = x ^ 19 * (41543395386226771764991056069601 / 20282409603651670423947251286016)"
      by (simp flip: sq power_add)
    with p19 show ?thesis
      by simp
  qed
  have p23: "4829449462893743927856703089279903 / 1267650600228229401496703205376 \<le> x ^ 23 \<and> x ^ 23 \<le> 603681182861717990982087886160287 / 158456325028528675187087900672"
  proof -
    have "x ^ 23 = x ^ 21 * (41543395386226771764991056069601 / 20282409603651670423947251286016)"
      by (simp flip: sq power_add)
    with p21 show ?thesis
      by simp
  qed
  have p24: "x ^ 24 \<le> 3455881561632869402455198124774661 / 633825300114114700748351602688"
  proof -
    have "x ^ 24 = x ^ 23 * x"
      by (simp add: power_Suc2 [of x 23, symmetric])
    then have "x ^ 24 = x ^ 23 * (6445416618514801 / 2 ^ 52)"
      using x_def [symmetric] by (simp only:)
    with p23 show ?thesis
      by simp
  qed
  have s3: "298723423616281046612274848669 / 316912650057057350374175801344 \<le> x - x ^ 3 / 6
      \<and> x - x ^ 3 / 6 \<le> 1194893694465124186449099394677 / 1267650600228229401496703205376"
    using x1 p3 by linarith
  have s5: "1258320730948042471996953806499 / 1267650600228229401496703205376 \<le> x - x ^ 3 / 6 + x ^ 5 / 120
      \<and> x - x ^ 3 / 6 + x ^ 5 / 120 \<le> 1258320730948042471996953806501 / 1267650600228229401496703205376"
    using s3 p5 by linarith
  have s7: "1255227534022987227818725854303 / 1267650600228229401496703205376 \<le> x - x ^ 3 / 6 + x ^ 5 / 120 - x ^ 7 / 5040
      \<and> x - x ^ 3 / 6 + x ^ 5 / 120 - x ^ 7 / 5040 \<le> 627613767011493613909362927153 / 633825300114114700748351602688"
    using s5 p7 by linarith
  have s9: "1255315528925258695510861937489 / 1267650600228229401496703205376 \<le> x - x ^ 3 / 6 + x ^ 5 / 120 - x ^ 7 / 5040 + x ^ 9 / 362880
      \<and> x - x ^ 3 / 6 + x ^ 5 / 120 - x ^ 7 / 5040 + x ^ 9 / 362880 \<le> 1255315528925258695510861937493 / 1267650600228229401496703205376"
    using s7 p9 by linarith
  have s11: "313828472605539021707923365037 / 316912650057057350374175801344 \<le> x - x ^ 3 / 6 + x ^ 5 / 120 - x ^ 7 / 5040 + x ^ 9 / 362880 - x ^ 11 / 39916800
      \<and> x - x ^ 3 / 6 + x ^ 5 / 120 - x ^ 7 / 5040 + x ^ 9 / 362880 - x ^ 11 / 39916800 \<le> 1255313890422156086831693460153 / 1267650600228229401496703205376"
    using s9 p11 by linarith
  have s13: "1255313911935360791150640372761 / 1267650600228229401496703205376 \<le> x - x ^ 3 / 6 + x ^ 5 / 120 - x ^ 7 / 5040 + x ^ 9 / 362880 - x ^ 11 / 39916800 + x ^ 13 / 6227020800
      \<and> x - x ^ 3 / 6 + x ^ 5 / 120 - x ^ 7 / 5040 + x ^ 9 / 362880 - x ^ 11 / 39916800 + x ^ 13 / 6227020800 \<le> 1255313911935360791150640372767 / 1267650600228229401496703205376"
    using s11 p13 by linarith
  have s15: "313828477931382616344922587501 / 316912650057057350374175801344 \<le> x - x ^ 3 / 6 + x ^ 5 / 120 - x ^ 7 / 5040 + x ^ 9 / 362880 - x ^ 11 / 39916800 + x ^ 13 / 6227020800 - x ^ 15 / 1307674368000
      \<and> x - x ^ 3 / 6 + x ^ 5 / 120 - x ^ 7 / 5040 + x ^ 9 / 362880 - x ^ 11 / 39916800 + x ^ 13 / 6227020800 - x ^ 15 / 1307674368000 \<le> 1255313911725530465379690350011 / 1267650600228229401496703205376"
    using s13 p15 by linarith
  have s17: "1255313911727110555256951225523 / 1267650600228229401496703205376 \<le> x - x ^ 3 / 6 + x ^ 5 / 120 - x ^ 7 / 5040 + x ^ 9 / 362880 - x ^ 11 / 39916800 + x ^ 13 / 6227020800 - x ^ 15 / 1307674368000 + x ^ 17 / 355687428096000
      \<and> x - x ^ 3 / 6 + x ^ 5 / 120 - x ^ 7 / 5040 + x ^ 9 / 362880 - x ^ 11 / 39916800 + x ^ 13 / 6227020800 - x ^ 15 / 1307674368000 + x ^ 17 / 355687428096000 \<le> 1255313911727110555256951225531 / 1267650600228229401496703205376"
    using s15 p17 by linarith
  have s19: "627656955863550546027321668231 / 633825300114114700748351602688 \<le> x - x ^ 3 / 6 + x ^ 5 / 120 - x ^ 7 / 5040 + x ^ 9 / 362880 - x ^ 11 / 39916800 + x ^ 13 / 6227020800 - x ^ 15 / 1307674368000 + x ^ 17 / 355687428096000 - x ^ 19 / 121645100408832000
      \<and> x - x ^ 3 / 6 + x ^ 5 / 120 - x ^ 7 / 5040 + x ^ 9 / 362880 - x ^ 11 / 39916800 + x ^ 13 / 6227020800 - x ^ 15 / 1307674368000 + x ^ 17 / 355687428096000 - x ^ 19 / 121645100408832000 \<le> 1255313911727101092054643336471 / 1267650600228229401496703205376"
    using s17 p19 by linarith
  have s21: "78457119482943821137787345305 / 79228162514264337593543950336 \<le> x - x ^ 3 / 6 + x ^ 5 / 120 - x ^ 7 / 5040 + x ^ 9 / 362880 - x ^ 11 / 39916800 + x ^ 13 / 6227020800 - x ^ 15 / 1307674368000 + x ^ 17 / 355687428096000 - x ^ 19 / 121645100408832000 + x ^ 21 / 51090942171709440000
      \<and> x - x ^ 3 / 6 + x ^ 5 / 120 - x ^ 7 / 5040 + x ^ 9 / 362880 - x ^ 11 / 39916800 + x ^ 13 / 6227020800 - x ^ 15 / 1307674368000 + x ^ 17 / 355687428096000 - x ^ 19 / 121645100408832000 + x ^ 21 / 51090942171709440000 \<le> 627656955863550569102298762445 / 633825300114114700748351602688"
    using s19 p21 by linarith
  have s23: "627656955863550569008893100675 / 633825300114114700748351602688 \<le> x - x ^ 3 / 6 + x ^ 5 / 120 - x ^ 7 / 5040 + x ^ 9 / 362880 - x ^ 11 / 39916800 + x ^ 13 / 6227020800 - x ^ 15 / 1307674368000 + x ^ 17 / 355687428096000 - x ^ 19 / 121645100408832000 + x ^ 21 / 51090942171709440000 - x ^ 23 / 25852016738884976640000
      \<and> x - x ^ 3 / 6 + x ^ 5 / 120 - x ^ 7 / 5040 + x ^ 9 / 362880 - x ^ 11 / 39916800 + x ^ 13 / 6227020800 - x ^ 15 / 1307674368000 + x ^ 17 / 355687428096000 - x ^ 19 / 121645100408832000 + x ^ 21 / 51090942171709440000 - x ^ 23 / 25852016738884976640000 \<le> 1255313911727101138017786201361 / 1267650600228229401496703205376"
    using s21 p23 by linarith
  define P where "P = (\<Sum>m<24. sin_coeff m * x ^ m)"
  have P: "P = x - x ^ 3 / 6 + x ^ 5 / 120 - x ^ 7 / 5040 + x ^ 9 / 362880 - x ^ 11 / 39916800
       + x ^ 13 / 6227020800 - x ^ 15 / 1307674368000 + x ^ 17 / 355687428096000 - x ^ 19 / 121645100408832000
       + x ^ 21 / 51090942171709440000 - x ^ 23 / 25852016738884976640000"
    by (simp add: P_def sin_coeff_def lessThan_nat_numeral fact_numeral)
  have "\<bar>sin x - P\<bar> \<le> inverse (fact 24) * \<bar>x\<bar> ^ 24"
    unfolding P_def by (rule Maclaurin_sin_bound)
  also have "\<bar>x\<bar> = x"
    using x0 by simp
  also have "inverse (fact 24) * x ^ 24 = x ^ 24 / 620448401733239439360000"
    by (simp add: fact_numeral)
  finally have R: "\<bar>sin x - P\<bar> \<le> x ^ 24 / 620448401733239439360000" .
  have "\<bar>sin x - 4459770905381437 / 4503599627370496\<bar> < 1 / 18014398509481984"
    using R s23 p24 unfolding P by linarith
  then show ?thesis
    by (simp add: x_def)
qed

lemma cos_lat_near:
  "\<bar>cos (6445416618514801 / 2 ^ 52 :: real) - 2507119702494989 / 2 ^ 54\<bar> < 1 / 2 ^ 56"
proof -
  define x :: real where "x = 6445416618514801 / 2 ^ 52"
  have x1: "x = 6445416618514801 / 4503599627370496"
    by (simp add: x_def)
  have sq: "x ^ 2 = 41543395386226771764991056069601 / 20282409603651670423947251286016"
    by (simp add: x_def power_divide)
  have x0: "0 \<le> x"
    by (simp add: x_def)
  have p4: "2659098656702571605720394443309 / 633825300114114700748351602688 \<le> x ^ 4 \<and> x ^ 4 \<le> 5318197313405143211440788886619 / 1267650600228229401496703205376"
  proof -
    have "x ^ 4 = x ^ 2 * (41543395386226771764991056069601 / 20282409603651670423947251286016)"
      by (simp flip: sq power_add)
    with sq show ?thesis
      by simp
  qed
  have p6: "2723246128667341010229826791161 / 316912650057057350374175801344 \<le> x ^ 6 \<and> x ^ 6 \<le> 10892984514669364040919307164647 / 1267650600228229401496703205376"
  proof -
    have "x ^ 6 = x ^ 4 * (41543395386226771764991056069601 / 20282409603651670423947251286016)"
      by (simp flip: sq power_add)
    with p4 show ?thesis
      by simp
  qed
  have p8: "2788941079191846733988167945295 / 158456325028528675187087900672 \<le> x ^ 8 \<and> x ^ 8 \<le> 22311528633534773871905343562367 / 1267650600228229401496703205376"
  proof -
    have "x ^ 8 = x ^ 6 * (41543395386226771764991056069601 / 20282409603651670423947251286016)"
      by (simp flip: sq power_add)
    with p6 show ?thesis
      by simp
  qed
  have p10: "22849766714285648778615496420871 / 633825300114114700748351602688 \<le> x ^ 10 \<and> x ^ 10 \<le> 45699533428571297557230992841757 / 1267650600228229401496703205376"
  proof -
    have "x ^ 10 = x ^ 8 * (41543395386226771764991056069601 / 20282409603651670423947251286016)"
      by (simp flip: sq power_add)
    with p8 show ?thesis
      by simp
  qed
  have p12: "93603956496737654280603125369895 / 1267650600228229401496703205376 \<le> x ^ 12 \<and> x ^ 12 \<le> 46801978248368827140301562684963 / 633825300114114700748351602688"
  proof -
    have "x ^ 12 = x ^ 10 * (41543395386226771764991056069601 / 20282409603651670423947251286016)"
      by (simp flip: sq power_add)
    with p10 show ?thesis
      by simp
  qed
  have p14: "23965509094140307417460977583851 / 158456325028528675187087900672 \<le> x ^ 14 \<and> x ^ 14 \<le> 191724072753122459339687820670873 / 1267650600228229401496703205376"
  proof -
    have "x ^ 14 = x ^ 12 * (41543395386226771764991056069601 / 20282409603651670423947251286016)"
      by (simp flip: sq power_add)
    with p12 show ?thesis
      by simp
  qed
  have p16: "196349179290972126882511552277483 / 633825300114114700748351602688 \<le> x ^ 16 \<and> x ^ 16 \<le> 392698358581944253765023104555101 / 1267650600228229401496703205376"
  proof -
    have "x ^ 16 = x ^ 14 * (41543395386226771764991056069601 / 20282409603651670423947251286016)"
      by (simp flip: sq power_add)
    with p14 show ?thesis
      by simp
  qed
  have p18: "804343443254137425181905616864573 / 1267650600228229401496703205376 \<le> x ^ 18 \<and> x ^ 18 \<le> 804343443254137425181905616864851 / 1267650600228229401496703205376"
  proof -
    have "x ^ 18 = x ^ 16 * (41543395386226771764991056069601 / 20282409603651670423947251286016)"
      by (simp flip: sq power_add)
    with p16 show ?thesis
      by simp
  qed
  have p20: "1647494471436450089344242793414465 / 1267650600228229401496703205376 \<le> x ^ 20 \<and> x ^ 20 \<le> 411873617859112522336060698353759 / 316912650057057350374175801344"
  proof -
    have "x ^ 20 = x ^ 18 * (41543395386226771764991056069601 / 20282409603651670423947251286016)"
      by (simp flip: sq power_add)
    with p18 show ?thesis
      by simp
  qed
  have p22: "3374476482872363384978331271879197 / 1267650600228229401496703205376 \<le> x ^ 22 \<and> x ^ 22 \<le> 3374476482872363384978331271880367 / 1267650600228229401496703205376"
  proof -
    have "x ^ 22 = x ^ 20 * (41543395386226771764991056069601 / 20282409603651670423947251286016)"
      by (simp flip: sq power_add)
    with p20 show ?thesis
      by simp
  qed
  have p24: "x ^ 24 \<le> 6911763123265738804910396249549427 / 1267650600228229401496703205376"
  proof -
    have "x ^ 24 = x ^ 22 * (41543395386226771764991056069601 / 20282409603651670423947251286016)"
      by (simp flip: sq power_add)
    with p22 show ?thesis
      by simp
  qed
  have s2: "-955640799729913004977103025 / 39614081257132168796771975168 \<le> 1 - x ^ 2 / 2
      \<and> 1 - x ^ 2 / 2 \<le> -30580505591357216159267296799 / 1267650600228229401496703205376"
    using x1 sq by linarith
  have s4: "95505524566928542158716120071 / 633825300114114700748351602688 \<le> 1 - x ^ 2 / 2 + x ^ 4 / 24
      \<and> 1 - x ^ 2 / 2 + x ^ 4 / 24 \<le> 11938190570866067769839515009 / 79228162514264337593543950336"
    using s2 p4 by linarith
  have s6: "43970475993648519676261078381 / 316912650057057350374175801344 \<le> 1 - x ^ 2 / 2 + x ^ 4 / 24 - x ^ 6 / 720
      \<and> 1 - x ^ 2 / 2 + x ^ 4 / 24 - x ^ 6 / 720 \<le> 175881903974594078705044313527 / 1267650600228229401496703205376"
    using s4 p6 by linarith
  have s8: "176435265299830556231629267481 / 1267650600228229401496703205376 \<le> 1 - x ^ 2 / 2 + x ^ 4 / 24 - x ^ 6 / 720 + x ^ 8 / 40320
      \<and> 1 - x ^ 2 / 2 + x ^ 4 / 24 - x ^ 6 / 720 + x ^ 8 / 40320 \<le> 176435265299830556231629267485 / 1267650600228229401496703205376"
    using s6 p8 by linarith
  have s10: "176422671733519772695044933543 / 1267650600228229401496703205376 \<le> 1 - x ^ 2 / 2 + x ^ 4 / 24 - x ^ 6 / 720 + x ^ 8 / 40320 - x ^ 10 / 3628800
      \<and> 1 - x ^ 2 / 2 + x ^ 4 / 24 - x ^ 6 / 720 + x ^ 8 / 40320 - x ^ 10 / 3628800 \<le> 44105667933379943173761233387 / 316912650057057350374175801344"
    using s8 p10 by linarith
  have s12: "44105716787056265307995378221 / 316912650057057350374175801344 \<le> 1 - x ^ 2 / 2 + x ^ 4 / 24 - x ^ 6 / 720 + x ^ 8 / 40320 - x ^ 10 / 3628800 + x ^ 12 / 479001600
      \<and> 1 - x ^ 2 / 2 + x ^ 4 / 24 - x ^ 6 / 720 + x ^ 8 / 40320 - x ^ 10 / 3628800 + x ^ 12 / 479001600 \<le> 88211433574112530615990756445 / 633825300114114700748351602688"
    using s10 p12 by linarith
  have s14: "176422864949006997720288600283 / 1267650600228229401496703205376 \<le> 1 - x ^ 2 / 2 + x ^ 4 / 24 - x ^ 6 / 720 + x ^ 8 / 40320 - x ^ 10 / 3628800 + x ^ 12 / 479001600 - x ^ 14 / 87178291200
      \<and> 1 - x ^ 2 / 2 + x ^ 4 / 24 - x ^ 6 / 720 + x ^ 8 / 40320 - x ^ 10 / 3628800 + x ^ 12 / 479001600 - x ^ 14 / 87178291200 \<le> 88211432474503498860144300145 / 633825300114114700748351602688"
    using s12 p14 by linarith
  have s16: "176422864967775926753369958241 / 1267650600228229401496703205376 \<le> 1 - x ^ 2 / 2 + x ^ 4 / 24 - x ^ 6 / 720 + x ^ 8 / 40320 - x ^ 10 / 3628800 + x ^ 12 / 479001600 - x ^ 14 / 87178291200 + x ^ 16 / 20922789888000
      \<and> 1 - x ^ 2 / 2 + x ^ 4 / 24 - x ^ 6 / 720 + x ^ 8 / 40320 - x ^ 10 / 3628800 + x ^ 12 / 479001600 - x ^ 14 / 87178291200 + x ^ 16 / 20922789888000 \<le> 176422864967775926753369958249 / 1267650600228229401496703205376"
    using s14 p16 by linarith
  have s18: "22052858120956286835778730201 / 158456325028528675187087900672 \<le> 1 - x ^ 2 / 2 + x ^ 4 / 24 - x ^ 6 / 720 + x ^ 8 / 40320 - x ^ 10 / 3628800 + x ^ 12 / 479001600 - x ^ 14 / 87178291200 + x ^ 16 / 20922789888000 - x ^ 18 / 6402373705728000
      \<and> 1 - x ^ 2 / 2 + x ^ 4 / 24 - x ^ 6 / 720 + x ^ 8 / 40320 - x ^ 10 / 3628800 + x ^ 12 / 479001600 - x ^ 14 / 87178291200 + x ^ 16 / 20922789888000 - x ^ 18 / 6402373705728000 \<le> 176422864967650294686229841617 / 1267650600228229401496703205376"
    using s16 p18 by linarith
  have s20: "44105716241912742964696466767 / 316912650057057350374175801344 \<le> 1 - x ^ 2 / 2 + x ^ 4 / 24 - x ^ 6 / 720 + x ^ 8 / 40320 - x ^ 10 / 3628800 + x ^ 12 / 479001600 - x ^ 14 / 87178291200 + x ^ 16 / 20922789888000 - x ^ 18 / 6402373705728000 + x ^ 20 / 2432902008176640000
      \<and> 1 - x ^ 2 / 2 + x ^ 4 / 24 - x ^ 6 / 720 + x ^ 8 / 40320 - x ^ 10 / 3628800 + x ^ 12 / 479001600 - x ^ 14 / 87178291200 + x ^ 16 / 20922789888000 - x ^ 18 / 6402373705728000 + x ^ 20 / 2432902008176640000 \<le> 88211432483825485929392933539 / 633825300114114700748351602688"
    using s18 p20 by linarith
  have s22: "176422864967650968856584534383 / 1267650600228229401496703205376 \<le> 1 - x ^ 2 / 2 + x ^ 4 / 24 - x ^ 6 / 720 + x ^ 8 / 40320 - x ^ 10 / 3628800 + x ^ 12 / 479001600 - x ^ 14 / 87178291200 + x ^ 16 / 20922789888000 - x ^ 18 / 6402373705728000 + x ^ 20 / 2432902008176640000 - x ^ 22 / 1124000727777607680000
      \<and> 1 - x ^ 2 / 2 + x ^ 4 / 24 - x ^ 6 / 720 + x ^ 8 / 40320 - x ^ 10 / 3628800 + x ^ 12 / 479001600 - x ^ 14 / 87178291200 + x ^ 16 / 20922789888000 - x ^ 18 / 6402373705728000 + x ^ 20 / 2432902008176640000 - x ^ 22 / 1124000727777607680000 \<le> 88211432483825484428292267197 / 633825300114114700748351602688"
    using s20 p22 by linarith
  define P where "P = (\<Sum>m<24. cos_coeff m * x ^ m)"
  have P: "P = 1 - x ^ 2 / 2 + x ^ 4 / 24 - x ^ 6 / 720 + x ^ 8 / 40320 - x ^ 10 / 3628800
       + x ^ 12 / 479001600 - x ^ 14 / 87178291200 + x ^ 16 / 20922789888000 - x ^ 18 / 6402373705728000
       + x ^ 20 / 2432902008176640000 - x ^ 22 / 1124000727777607680000"
    by (simp add: P_def cos_coeff_def lessThan_nat_numeral fact_numeral)
  have "0 < x"
    by (simp add: x_def)
  from Maclaurin_cos_expansion2 [OF this, of 24] obtain t where
    "cos x = P + cos (t + 1 / 2 * real 24 * pi) / fact 24 * x ^ 24"
    unfolding P_def by auto
  then have "\<bar>cos x - P\<bar> = \<bar>cos (t + 1 / 2 * real 24 * pi)\<bar> * (x ^ 24 / fact 24)"
    using x0 by (simp add: abs_mult)
  also have "\<dots> \<le> 1 * (x ^ 24 / fact 24)"
    using x0 by (intro mult_right_mono) simp_all
  finally have R: "\<bar>cos x - P\<bar> \<le> x ^ 24 / 620448401733239439360000"
    by (simp add: fact_numeral)
  have "\<bar>cos x - 2507119702494989 / 18014398509481984\<bar> < 1 / 72057594037927936"
    using R s22 p24 unfolding P by linarith
  then show ?thesis
    by (simp add: x_def)
qed

lemma sin_half_dLng_near:
  "\<bar>sin (884279719003555 / 2 ^ 49 :: real) - (1 :: real)\<bar> < 1 / 2 ^ 54"
proof -
  define x :: real where "x = 884279719003555 / 2 ^ 49"
  have x1: "x = 884279719003555 / 562949953421312"
    by (simp add: x_def)
  have sq: "x ^ 2 = 781950621441006189802102638025 / 316912650057057350374175801344"
    by (simp add: x_def power_divide)
  have x0: "0 \<le> x"
    by (simp add: x_def)
  have p3: "4797988921462965649191492491 / 1237940039285380274899124224 \<le> x ^ 3 \<and> x ^ 3 \<le> 4913140655578076824772088310785 / 1267650600228229401496703205376"
  proof -
    have "x ^ 3 = x ^ 1 * (781950621441006189802102638025 / 316912650057057350374175801344)"
      by (simp add: power2_eq_square power3_eq_cube flip: sq)
    with x1 show ?thesis
      by simp
  qed
  have p5: "12122688659366109977875718475249 / 1267650600228229401496703205376 \<le> x ^ 5 \<and> x ^ 5 \<le> 3030672164841527494468929618813 / 316912650057057350374175801344"
  proof -
    have "x ^ 5 = x ^ 3 * (781950621441006189802102638025 / 316912650057057350374175801344)"
      by (simp flip: sq power_add)
    with p3 show ?thesis
      by simp
  qed
  have p7: "14955767668189475786878668170515 / 633825300114114700748351602688 \<le> x ^ 7 \<and> x ^ 7 \<le> 29911535336378951573757336341039 / 1267650600228229401496703205376"
  proof -
    have "x ^ 7 = x ^ 5 * (781950621441006189802102638025 / 316912650057057350374175801344)"
      by (simp flip: sq power_add)
    with p5 show ?thesis
      by simp
  qed
  have p9: "73803755199816386581255401449675 / 1267650600228229401496703205376 \<le> x ^ 9 \<and> x ^ 9 \<le> 36901877599908193290627700724849 / 633825300114114700748351602688"
  proof -
    have "x ^ 9 = x ^ 7 * (781950621441006189802102638025 / 316912650057057350374175801344)"
      by (simp flip: sq power_add)
    with p7 show ?thesis
      by simp
  qed
  have p11: "22762933348032168382315054502535 / 158456325028528675187087900672 \<le> x ^ 11 \<and> x ^ 11 \<le> 182103466784257347058520436020337 / 1267650600228229401496703205376"
  proof -
    have "x ^ 11 = x ^ 9 * (781950621441006189802102638025 / 316912650057057350374175801344)"
      by (simp flip: sq power_add)
    with p9 show ?thesis
      by simp
  qed
  have p13: "28082643394180250065614541147739 / 79228162514264337593543950336 \<le> x ^ 13 \<and> x ^ 13 \<le> 224661147153442000524916329181983 / 633825300114114700748351602688"
  proof -
    have "x ^ 13 = x ^ 11 * (781950621441006189802102638025 / 316912650057057350374175801344)"
      by (simp flip: sq power_add)
    with p11 show ?thesis
      by simp
  qed
  have p15: "554329161674848756906184127571017 / 633825300114114700748351602688 \<le> x ^ 15 \<and> x ^ 15 \<le> 1108658323349697513812368255142385 / 1267650600228229401496703205376"
  proof -
    have "x ^ 15 = x ^ 13 * (781950621441006189802102638025 / 316912650057057350374175801344)"
      by (simp flip: sq power_add)
    with p13 show ?thesis
      by simp
  qed
  have p17: "2735504766859130741949447280272077 / 1267650600228229401496703205376 \<le> x ^ 17 \<and> x ^ 17 \<le> 170969047928695671371840455017059 / 79228162514264337593543950336"
  proof -
    have "x ^ 17 = x ^ 15 * (781950621441006189802102638025 / 316912650057057350374175801344)"
      by (simp flip: sq power_add)
    with p15 show ?thesis
      by simp
  qed
  have p19: "3374793735774224317584527176433513 / 633825300114114700748351602688 \<le> x ^ 19 \<and> x ^ 19 \<le> 6749587471548448635169054352869167 / 1267650600228229401496703205376"
  proof -
    have "x ^ 19 = x ^ 17 * (781950621441006189802102638025 / 316912650057057350374175801344)"
      by (simp flip: sq power_add)
    with p17 show ?thesis
      by simp
  qed
  have p21: "8326969776841519944369206302028623 / 633825300114114700748351602688 \<le> x ^ 21 \<and> x ^ 21 \<le> 16653939553683039888738412604062529 / 1267650600228229401496703205376"
  proof -
    have "x ^ 21 = x ^ 19 * (781950621441006189802102638025 / 316912650057057350374175801344)"
      by (simp flip: sq power_add)
    with p19 show ?thesis
      by simp
  qed
  have p23: "41091948778626566616735805381400051 / 1267650600228229401496703205376 \<le> x ^ 23 \<and> x ^ 23 \<le> 41091948778626566616735805381413087 / 1267650600228229401496703205376"
  proof -
    have "x ^ 23 = x ^ 21 * (781950621441006189802102638025 / 316912650057057350374175801344)"
      by (simp flip: sq power_add)
    with p21 show ?thesis
      by simp
  qed
  have p24: "x ^ 24 \<le> 64547082202310646813163572453641501 / 1267650600228229401496703205376"
  proof -
    have "x ^ 24 = x ^ 23 * x"
      by (simp add: power_Suc2 [of x 23, symmetric])
    then have "x ^ 24 = x ^ 23 * (884279719003555 / 2 ^ 49)"
      using x_def [symmetric] by (simp only:)
    with p23 show ?thesis
      by simp
  qed
  have s3: "586182065284084566713807502421 / 633825300114114700748351602688 \<le> x - x ^ 3 / 6
      \<and> x - x ^ 3 / 6 \<le> 1172364130568169133427615004843 / 1267650600228229401496703205376"
    using x1 p3 by linarith
  have s5: "1273386536062886716576579325469 / 1267650600228229401496703205376 \<le> x - x ^ 3 / 6 + x ^ 5 / 120
      \<and> x - x ^ 3 / 6 + x ^ 5 / 120 \<le> 1273386536062886716576579325471 / 1267650600228229401496703205376"
    using s3 p5 by linarith
  have s7: "1267451707623128988089722711115 / 1267650600228229401496703205376 \<le> x - x ^ 3 / 6 + x ^ 5 / 120 - x ^ 7 / 5040
      \<and> x - x ^ 3 / 6 + x ^ 5 / 120 - x ^ 7 / 5040 \<le> 633725853811564494044861355559 / 633825300114114700748351602688"
    using s5 p7 by linarith
  have s9: "1267655090987326012964560826749 / 1267650600228229401496703205376 \<le> x - x ^ 3 / 6 + x ^ 5 / 120 - x ^ 7 / 5040 + x ^ 9 / 362880
      \<and> x - x ^ 3 / 6 + x ^ 5 / 120 - x ^ 7 / 5040 + x ^ 9 / 362880 \<le> 1267655090987326012964560826753 / 1267650600228229401496703205376"
    using s7 p9 by linarith
  have s11: "1267650528911538769063570303449 / 1267650600228229401496703205376 \<le> x - x ^ 3 / 6 + x ^ 5 / 120 - x ^ 7 / 5040 + x ^ 9 / 362880 - x ^ 11 / 39916800
      \<and> x - x ^ 3 / 6 + x ^ 5 / 120 - x ^ 7 / 5040 + x ^ 9 / 362880 - x ^ 11 / 39916800 \<le> 633825264455769384531785151727 / 633825300114114700748351602688"
    using s9 p11 by linarith
  have s13: "633825300534201490209350983031 / 633825300114114700748351602688 \<le> x - x ^ 3 / 6 + x ^ 5 / 120 - x ^ 7 / 5040 + x ^ 9 / 362880 - x ^ 11 / 39916800 + x ^ 13 / 6227020800
      \<and> x - x ^ 3 / 6 + x ^ 5 / 120 - x ^ 7 / 5040 + x ^ 9 / 362880 - x ^ 11 / 39916800 + x ^ 13 / 6227020800 \<le> 316912650267100745104675491517 / 316912650057057350374175801344"
    using s11 p13 by linarith
  have s15: "633825300110296904144352302177 / 633825300114114700748351602688 \<le> x - x ^ 3 / 6 + x ^ 5 / 120 - x ^ 7 / 5040 + x ^ 9 / 362880 - x ^ 11 / 39916800 + x ^ 13 / 6227020800 - x ^ 15 / 1307674368000
      \<and> x - x ^ 3 / 6 + x ^ 5 / 120 - x ^ 7 / 5040 + x ^ 9 / 362880 - x ^ 11 / 39916800 + x ^ 13 / 6227020800 - x ^ 15 / 1307674368000 \<le> 1267650600220593808288704604361 / 1267650600228229401496703205376"
    using s13 p15 by linarith
  have s17: "1267650600228284563009787459969 / 1267650600228229401496703205376 \<le> x - x ^ 3 / 6 + x ^ 5 / 120 - x ^ 7 / 5040 + x ^ 9 / 362880 - x ^ 11 / 39916800 + x ^ 13 / 6227020800 - x ^ 15 / 1307674368000 + x ^ 17 / 355687428096000
      \<and> x - x ^ 3 / 6 + x ^ 5 / 120 - x ^ 7 / 5040 + x ^ 9 / 362880 - x ^ 11 / 39916800 + x ^ 13 / 6227020800 - x ^ 15 / 1307674368000 + x ^ 17 / 355687428096000 \<le> 1267650600228284563009787459977 / 1267650600228229401496703205376"
    using s15 p17 by linarith
  have s19: "1267650600228229077113118674801 / 1267650600228229401496703205376 \<le> x - x ^ 3 / 6 + x ^ 5 / 120 - x ^ 7 / 5040 + x ^ 9 / 362880 - x ^ 11 / 39916800 + x ^ 13 / 6227020800 - x ^ 15 / 1307674368000 + x ^ 17 / 355687428096000 - x ^ 19 / 121645100408832000
      \<and> x - x ^ 3 / 6 + x ^ 5 / 120 - x ^ 7 / 5040 + x ^ 9 / 362880 - x ^ 11 / 39916800 + x ^ 13 / 6227020800 - x ^ 15 / 1307674368000 + x ^ 17 / 355687428096000 - x ^ 19 / 121645100408832000 \<le> 633825300114114538556559337405 / 633825300114114700748351602688"
    using s17 p19 by linarith
  have s21: "1267650600228229403079696032319 / 1267650600228229401496703205376 \<le> x - x ^ 3 / 6 + x ^ 5 / 120 - x ^ 7 / 5040 + x ^ 9 / 362880 - x ^ 11 / 39916800 + x ^ 13 / 6227020800 - x ^ 15 / 1307674368000 + x ^ 17 / 355687428096000 - x ^ 19 / 121645100408832000 + x ^ 21 / 51090942171709440000
      \<and> x - x ^ 3 / 6 + x ^ 5 / 120 - x ^ 7 / 5040 + x ^ 9 / 362880 - x ^ 11 / 39916800 + x ^ 13 / 6227020800 - x ^ 15 / 1307674368000 + x ^ 17 / 355687428096000 - x ^ 19 / 121645100408832000 + x ^ 21 / 51090942171709440000 \<le> 1267650600228229403079696032329 / 1267650600228229401496703205376"
    using s19 p21 by linarith
  have s23: "1267650600228229401490189527133 / 1267650600228229401496703205376 \<le> x - x ^ 3 / 6 + x ^ 5 / 120 - x ^ 7 / 5040 + x ^ 9 / 362880 - x ^ 11 / 39916800 + x ^ 13 / 6227020800 - x ^ 15 / 1307674368000 + x ^ 17 / 355687428096000 - x ^ 19 / 121645100408832000 + x ^ 21 / 51090942171709440000 - x ^ 23 / 25852016738884976640000
      \<and> x - x ^ 3 / 6 + x ^ 5 / 120 - x ^ 7 / 5040 + x ^ 9 / 362880 - x ^ 11 / 39916800 + x ^ 13 / 6227020800 - x ^ 15 / 1307674368000 + x ^ 17 / 355687428096000 - x ^ 19 / 121645100408832000 + x ^ 21 / 51090942171709440000 - x ^ 23 / 25852016738884976640000 \<le> 158456325028528675186273690893 / 158456325028528675187087900672"
    using s21 p23 by linarith
  define P where "P = (\<Sum>m<24. sin_coeff m * x ^ m)"
  have P: "P = x - x ^ 3 / 6 + x ^ 5 / 120 - x ^ 7 / 5040 + x ^ 9 / 362880 - x ^ 11 / 39916800
       + x ^ 13 / 6227020800 - x ^ 15 / 1307674368000 + x ^ 17 / 355687428096000 - x ^ 19 / 121645100408832000
       + x ^ 21 / 51090942171709440000 - x ^ 23 / 25852016738884976640000"
    by (simp add: P_def sin_coeff_def lessThan_nat_numeral fact_numeral)
  have "\<bar>sin x - P\<bar> \<le> inverse (fact 24) * \<bar>x\<bar> ^ 24"
    unfolding P_def by (rule Maclaurin_sin_bound)
  also have "\<bar>x\<bar> = x"
    using x0 by simp
  also have "inverse (fact 24) * x ^ 24 = x ^ 24 / 620448401733239439360000"
    by (simp add: fact_numeral)
  finally have R: "\<bar>sin x - P\<bar> \<le> x ^ 24 / 620448401733239439360000" .
  have "\<bar>sin x - 1\<bar> < 1 / 18014398509481984"
    using R s23 p24 unfolding P by linarith
  then show ?thesis
    by (simp add: x_def)
qed

lemma round_even_near:
  assumes "\<bar>y - real_of_int n\<bar> < 1 / 2"
  shows "round_even y = n"
proof (cases "real_of_int n \<le> y")
  case True
  with assms have "\<lfloor>y\<rfloor> = n" by linarith
  with assms True show ?thesis by (simp add: round_even_def Let_def)
next
  case False
  with assms have "\<lfloor>y\<rfloor> = n - 1" by linarith
  with assms False show ?thesis by (simp add: round_even_def Let_def)
qed

lemma fl_near:
  assumes "pow2 e \<le> \<bar>x\<bar>" and "\<bar>x\<bar> < pow2 (e + 1)" and "- 1022 \<le> e" and "e < 1023"
    and "\<bar>x - real_of_int n * pow2 (e - 52)\<bar> < pow2 (e - 52) / 2"
  shows "fl x = Fin (real_of_int n * pow2 (e - 52))"
proof -
  have q: "0 < pow2 (e - 52)"
    by (simp add: pow2_powr)
  have "x / pow2 (e - 52) - real_of_int n = (x - real_of_int n * pow2 (e - 52)) / pow2 (e - 52)"
    using q by (simp add: field_simps)
  then have "\<bar>x / pow2 (e - 52) - real_of_int n\<bar>
               = \<bar>x - real_of_int n * pow2 (e - 52)\<bar> / pow2 (e - 52)"
    using q by (simp add: abs_divide)
  also have "\<dots> < 1 / 2"
    using assms(5) q by (simp add: field_simps)
  finally have "round_even (x / pow2 (e - 52)) = n"
    by (rule round_even_near)
  with fl_in_binade [OF assms(1-4)] show ?thesis by simp
qed

lemma fl_sin_half_dLat:
  "fl (sin (6445416618514801 / 2 ^ 52)) = Fin (4459770905381437 / 2 ^ 52)"
proof -
  define v :: real where "v = sin (6445416618514801 / 2 ^ 52)"
  have n: "\<bar>v - 4459770905381437 / 2 ^ 52\<bar> < 1 / 2 ^ 54"
    unfolding v_def by (rule sin_half_dLat_near)
  from n have b: "1 / 2 \<le> v \<and> v < 1"
    unfolding abs_less_iff by simp
  have "fl v = Fin (real_of_int 8919541810762874 * pow2 (- 1 - 52))"
  proof (rule fl_near)
    show "pow2 (- 1) \<le> \<bar>v\<bar>"
      using b by (simp add: pow2_def)
    show "\<bar>v\<bar> < pow2 (- 1 + 1)"
      using b by (simp add: pow2_def)
    show "\<bar>v - real_of_int 8919541810762874 * pow2 (- 1 - 52)\<bar> < pow2 (- 1 - 52) / 2"
      using n by (simp add: pow2_def)
  qed simp_all
  then show ?thesis
    by (simp add: v_def pow2_def)
qed

lemma fl_cos_lat:
  "fl (cos (6445416618514801 / 2 ^ 52)) = Fin (2507119702494989 / 2 ^ 54)"
proof -
  define v :: real where "v = cos (6445416618514801 / 2 ^ 52)"
  have n: "\<bar>v - 2507119702494989 / 2 ^ 54\<bar> < 1 / 2 ^ 56"
    unfolding v_def by (rule cos_lat_near)
  from n have b: "1 / 8 \<le> v \<and> v < 1 / 4"
    unfolding abs_less_iff by simp
  have "fl v = Fin (real_of_int 5014239404989978 * pow2 (- 3 - 52))"
  proof (rule fl_near)
    show "pow2 (- 3) \<le> \<bar>v\<bar>"
      using b by (simp add: pow2_def)
    show "\<bar>v\<bar> < pow2 (- 3 + 1)"
      using b by (simp add: pow2_def)
    show "\<bar>v - real_of_int 5014239404989978 * pow2 (- 3 - 52)\<bar> < pow2 (- 3 - 52) / 2"
      using n by (simp add: pow2_def)
  qed simp_all
  then show ?thesis
    by (simp add: v_def pow2_def)
qed

lemma fl_sin_half_dLng: "fl (sin (884279719003555 / 2 ^ 49)) = Fin 1"
proof (cases "sin (884279719003555 / 2 ^ 49 :: real) = 1")
  case True
  then show ?thesis by (simp add: fl_1)
next
  case False
  with sin_le_one [of "884279719003555 / 2 ^ 49 :: real"]
  have "sin (884279719003555 / 2 ^ 49 :: real) < 1" by linarith
  with sin_half_dLng_near
    fl_near [of "- 1" "sin (884279719003555 / 2 ^ 49)" 9007199254740992]
  show ?thesis
    by (simp add: pow2_def abs_less_iff)
qed

lemma ex_k: "fdiv (Fin Math_PI) (Fin 180) = Fin (5030569068109113 / 2 ^ 58)"
  unfolding fdiv_def Math_PI_def
  by (simp, subst fl_in_binade [of "- 6"]) (simp_all add: pow2_def round_even_def)


lemma ex_rad_164: "toRadians_js (Fin 164) = Fin (6445416618514801 / 2 ^ 51)"
  unfolding toRadians_js_def ex_k fmul_def
  by (simp, subst fl_in_binade [of 1]) (simp_all add: pow2_def round_even_def)

lemma ex_rad_180: "toRadians_js (Fin 180) = Fin (884279719003555 / 2 ^ 48)"
  unfolding toRadians_js_def ex_k fmul_def
  by (simp, subst fl_in_binade [of 1]) (simp_all add: pow2_def round_even_def)

lemma ex_rad_82: "toRadians_js (Fin 82) = Fin (6445416618514801 / 2 ^ 52)"
  unfolding toRadians_js_def ex_k fmul_def
  by (simp, subst fl_in_binade [of 0]) (simp_all add: pow2_def round_even_def)

lemma ex_rad_minus_82: "toRadians_js (Fin (- 82)) = Fin (- (6445416618514801 / 2 ^ 52))"
  unfolding toRadians_js_def ex_k fmul_def
  by (simp, subst fl_in_binade [of 0]) (simp_all add: pow2_def round_even_def)

lemma ex_dLat: "fsub (Fin 82) (Fin (- 82)) = Fin 164"
  unfolding fsub_def
  by (simp add: minus_jsnum_def, subst fl_in_binade [of 7]) (simp_all add: pow2_def round_even_def)

lemma ex_dLng: "fsub (Fin 1) (Fin (- 179)) = Fin 180"
  unfolding fsub_def
  by (simp add: minus_jsnum_def, subst fl_in_binade [of 7]) (simp_all add: pow2_def round_even_def)

lemma ex_half_dLat:
  "fdiv (Fin (6445416618514801 / 2 ^ 51)) (Fin 2) = Fin (6445416618514801 / 2 ^ 52)"
  unfolding fdiv_def
  by (simp, subst fl_in_binade [of 0]) (simp_all add: pow2_def round_even_def)

lemma ex_half_dLng:
  "fdiv (Fin (884279719003555 / 2 ^ 48)) (Fin 2) = Fin (884279719003555 / 2 ^ 49)"
  unfolding fdiv_def
  by (simp, subst fl_in_binade [of 0]) (simp_all add: pow2_def round_even_def)

lemma ex_sin_sin:
  "fmul (Fin (4459770905381437 / 2 ^ 52)) (Fin (4459770905381437 / 2 ^ 52))
     = Fin (8832737443003841 / 2 ^ 53)"
  unfolding fmul_def
  by (simp, subst fl_in_binade [of "- 1"]) (simp_all add: pow2_def round_even_def)

lemma ex_cos_cos:
  "fmul (Fin (2507119702494989 / 2 ^ 54)) (Fin (2507119702494989 / 2 ^ 54))
     = Fin (2791388987794435 / 2 ^ 57)"
  unfolding fmul_def
  by (simp, subst fl_in_binade [of "- 6"]) (simp_all add: pow2_def round_even_def)

lemma ex_times_one:
  "fmul (Fin (2791388987794435 / 2 ^ 57)) (Fin 1) = Fin (2791388987794435 / 2 ^ 57)"
  unfolding fmul_def
  by (simp, subst fl_in_binade [of "- 6"]) (simp_all add: pow2_def round_even_def)

lemma ex_sum:
  "fadd (Fin (8832737443003841 / 2 ^ 53)) (Fin (2791388987794435 / 2 ^ 57))
     = Fin (1 + 1 / 2 ^ 52)"
  unfolding fadd_def
  by (simp, subst fl_in_binade [of 0]) (simp_all add: pow2_def round_even_def)

lemma ex_one_minus: "fsub (Fin 1) (Fin (1 + 1 / 2 ^ 52)) = Fin (- (1 / 2 ^ 52))"
  unfolding fsub_def
  by (simp add: minus_jsnum_def, subst fl_in_binade [of "- 52"])
     (simp_all add: pow2_def round_even_def)

lemma ex_a: "haversine_a nearest_libm ex_south ex_north = Fin (1 + 1 / 2 ^ 52)"
proof -
  have dLat: "toRadians_js (fsub (Fin (lat ex_north)) (Fin (lat ex_south)))
                = Fin (6445416618514801 / 2 ^ 51)"
    by (simp only: ex_north_def ex_south_def Location.simps ex_dLat ex_rad_164)
  have dLng: "toRadians_js (fsub (Fin (lng ex_north)) (Fin (lng ex_south)))
                = Fin (884279719003555 / 2 ^ 48)"
    by (simp only: ex_north_def ex_south_def Location.simps ex_dLng ex_rad_180)
  have s1: "Math_sin nearest_libm (Fin (6445416618514801 / 2 ^ 52))
              = Fin (4459770905381437 / 2 ^ 52)"
    by (simp only: Math_sin_def nearest_libm_def jsnum.case libm.simps fl_sin_half_dLat
          finite_value_def)
  have s2: "Math_sin nearest_libm (Fin (884279719003555 / 2 ^ 49)) = Fin 1"
    by (simp only: Math_sin_def nearest_libm_def jsnum.case libm.simps fl_sin_half_dLng
          finite_value_def)
  have c1: "Math_cos nearest_libm (toRadians_js (Fin (lat ex_south)))
              = Fin (2507119702494989 / 2 ^ 54)"
    by (simp only: ex_south_def Location.simps ex_rad_minus_82 Math_cos_def nearest_libm_def
          jsnum.case libm.simps cos_minus fl_cos_lat finite_value_def)
  have c2: "Math_cos nearest_libm (toRadians_js (Fin (lat ex_north)))
              = Fin (2507119702494989 / 2 ^ 54)"
    by (simp only: ex_north_def Location.simps ex_rad_82 Math_cos_def nearest_libm_def
          jsnum.case libm.simps fl_cos_lat finite_value_def)
  show ?thesis
    unfolding haversine_a_def Let_def
    by (simp only: dLat dLng ex_half_dLat ex_half_dLng s1 s2 c1 c2 ex_sin_sin ex_cos_cos
          ex_times_one ex_sum)
qed


lemma ex_opposite: "haversineDistance ex_south ex_north = 6371 * pi"
proof -
  have half: "toRadians (1 - - 179) / 2 = pi / 2"
    by (simp add: toRadians_def)
  have a: "sin (toRadians (82 - - 82) / 2) * sin (toRadians (82 - - 82) / 2)
           + cos (toRadians (- 82)) * cos (toRadians 82) * sin (pi / 2) * sin (pi / 2) = 1"
  proof -
    have "toRadians (82 - - 82) / 2 = toRadians 82"
      by (simp add: toRadians_def)
    moreover have "cos (toRadians (- 82)) = cos (toRadians 82)"
      by (simp add: toRadians_def)
    ultimately show ?thesis
      using sin_cos_squared_add [of "toRadians 82"] by (simp add: power2_eq_square)
  qed
  show ?thesis
    unfolding haversineDistance_def Let_def ex_south_def ex_north_def Location.simps half a
    by (simp add: atan2_def EARTH_RADIUS_KM_def)
qed

lemma ex_origin_distance:
  "haversineDistance_js nearest_libm origin \<lparr>lat = 0, lng = 0\<rparr> = Fin 0"
proof -
  have z: "toRadians_js (Fin 0) = Fin 0"
    by (simp add: toRadians_js_def fmul_def ex_k fl_0)
  have a: "haversine_a nearest_libm origin \<lparr>lat = 0, lng = 0\<rparr> = Fin 0"
    by (simp add: haversine_a_def Let_def origin_def fsub_def fdiv_def fmul_def fadd_def
          minus_jsnum_def fl_0 fl_1 z Math_sin_def Math_cos_def nearest_libm_def
          finite_value_def)
  show ?thesis
    unfolding haversineDistance_js_def Let_def a
    by (simp add: Math_sqrt_def Math_atan2_def nearest_libm_def fsub_def fmul_def minus_jsnum_def
          fl_0 fl_1 atan2_def)
qed

text \<open>
  C6.  The deductive filter keeps a ride if and only if none of the five hard rules
  fires as the program evaluates them: price above the maximum, driver rated below the
  minimum, a non-empty list of preferred vehicle classes that leaves out the ride's
  class, a smoking preference different from the driver's, computed distance from the
  rider to the pickup above 5.  With a maximum price of 20 a ride priced 25 is
  excluded, and with a minimum driver rating of 4.5 a ride whose driver is rated 4.0 is
  excluded, whatever the other fields are.  The fifth rule is not the rule on the
  distance: when the constant \<open>a\<close> of the haversine formula comes out above 1, which
  rounding allows for points that lie opposite each other, the root of \<open>1 - a\<close> is
  NaN, so is the computed distance, the comparison with 5 is false, and the ride is
  kept whenever the other four rules keep it, however far away its pickup is.
\<close>

theorem deductiveFiltering_distance_rule:
  "(r \<in> set (deductiveFiltering_js m rides p loc dest) \<longleftrightarrow>
      r \<in> set rides
      \<and> \<not> (Ride.price r > maxPrice (UserProfile.preferences p)
           \<or> Driver.rating (Ride.driver r) < preferredDriverRatings (UserProfile.preferences p)
           \<or> (preferredVehicleTypes (UserProfile.preferences p) \<noteq> []
                \<and> Ride.vehicle_type r \<notin> set (preferredVehicleTypes (UserProfile.preferences p)))
           \<or> smokingPreference (UserProfile.preferences p)
                \<noteq> smokingAllowed (Driver.preferences (Ride.driver r))
           \<or> js_gt (haversineDistance_js m loc
                       \<lparr>lat = Ride.pickup_lat r, lng = Ride.pickup_lng r\<rparr>) 5))
   \<and> (maxPrice (UserProfile.preferences p) = 20 \<and> Ride.price r = 25
        \<longrightarrow> r \<notin> set (deductiveFiltering_js m rides p loc dest))
   \<and> (preferredDriverRatings (UserProfile.preferences p) = 4.5
        \<and> Driver.rating (Ride.driver r) = 4.0
        \<longrightarrow> r \<notin> set (deductiveFiltering_js m rides p loc dest))
   \<and> (fsub (Fin 1) (haversine_a m loc \<lparr>lat = Ride.pickup_lat r, lng = Ride.pickup_lng r\<rparr>)
          = Fin d \<and> d < 0
        \<longrightarrow> haversineDistance_js m loc \<lparr>lat = Ride.pickup_lat r, lng = Ride.pickup_lng r\<rparr>
              = NaN
            \<and> (r \<in> set (deductiveFiltering_js m rides p loc dest) \<longleftrightarrow>
                 r \<in> set rides
                 \<and> \<not> (Ride.price r > maxPrice (UserProfile.preferences p)
                      \<or> Driver.rating (Ride.driver r)
                           < preferredDriverRatings (UserProfile.preferences p)
                      \<or> (preferredVehicleTypes (UserProfile.preferences p) \<noteq> []
                           \<and> Ride.vehicle_type r
                                \<notin> set (preferredVehicleTypes (UserProfile.preferences p)))
                      \<or> smokingPreference (UserProfile.preferences p)
                           \<noteq> smokingAllowed (Driver.preferences (Ride.driver r)))))"
proof -
  have nan: "\<not> js_gt NaN 5"
    by (simp add: js_gt_def jsnum_lit)
  show ?thesis
    using haversine_sqrt_negative
            [of m loc "\<lparr>lat = Ride.pickup_lat r, lng = Ride.pickup_lng r\<rparr>" d] nan
    by (auto simp: deductive_js_member)
qed

theorem deductiveFiltering_distance_rule_witness:
  "haversine_a nearest_libm ex_south ex_north = Fin (1 + 1 / 2 ^ 52)
   \<and> haversineDistance_js nearest_libm ex_south ex_north = NaN
   \<and> deductiveFiltering_js nearest_libm [ex_far_ride] ex_profile ex_south origin = [ex_far_ride]
   \<and> haversineDistance ex_south ex_north = 6371 * pi
   \<and> 5 < 6371 * pi
   \<and> eliminated_spec ex_profile ex_south ex_far_ride
   \<and> deductiveFiltering_js nearest_libm [ex_ride 25 5, ex_ride 15 4, ex_ride 25 4, ex_ride 15 5]
        ex_profile origin origin = [ex_ride 15 5]"
proof -
  have pickup: "\<lparr>lat = Ride.pickup_lat ex_far_ride, lng = Ride.pickup_lng ex_far_ride\<rparr> = ex_north"
    by (simp add: ex_far_ride_def ex_north_def)
  have neg: "fsub (Fin 1) (haversine_a nearest_libm ex_south ex_north) = Fin (- (1 / 2 ^ 52))
             \<and> - (1 / 2 ^ 52) < (0 :: real)"
    by (simp only: ex_a ex_one_minus) simp
  note rule = deductiveFiltering_distance_rule
      [of ex_far_ride nearest_libm "[ex_far_ride]" ex_profile ex_south origin "- (1 / 2 ^ 52)",
       unfolded pickup]
  from rule neg have nan: "haversineDistance_js nearest_libm ex_south ex_north = NaN"
    by blast
  have fields: "\<not> (Ride.price ex_far_ride > maxPrice (UserProfile.preferences ex_profile)
           \<or> Driver.rating (Ride.driver ex_far_ride)
                < preferredDriverRatings (UserProfile.preferences ex_profile)
           \<or> (preferredVehicleTypes (UserProfile.preferences ex_profile) \<noteq> []
                \<and> Ride.vehicle_type ex_far_ride
                     \<notin> set (preferredVehicleTypes (UserProfile.preferences ex_profile)))
           \<or> smokingPreference (UserProfile.preferences ex_profile)
                \<noteq> smokingAllowed (Driver.preferences (Ride.driver ex_far_ride)))"
    by (simp add: ex_far_ride_def ex_ride_def ex_driver_def ex_profile_def ex_prefs_def)
  have "ex_far_ride \<in> set [ex_far_ride]"
    by simp
  with rule neg fields
  have "ex_far_ride \<in> set (deductiveFiltering_js nearest_libm [ex_far_ride] ex_profile ex_south origin)"
    by blast
  then have kept: "deductiveFiltering_js nearest_libm [ex_far_ride] ex_profile ex_south origin
                     = [ex_far_ride]"
    by (simp add: deductiveFiltering_js_def split: if_splits)
  have far: "5 < 6371 * pi"
    using pi_ge_two by simp
  have spec: "eliminated_spec ex_profile ex_south ex_far_ride"
    using far by (simp add: eliminated_spec_def pickup ex_opposite)
  have others: "deductiveFiltering_js nearest_libm
                  [ex_ride 25 5, ex_ride 15 4, ex_ride 25 4, ex_ride 15 5]
                  ex_profile origin origin = [ex_ride 15 5]"
    by (simp add: deductiveFiltering_js_def ex_ride_def ex_driver_def ex_profile_def
          ex_prefs_def ex_origin_distance js_gt_def jsnum_lit)
  from ex_a nan kept ex_opposite far spec others show ?thesis
    by (simp only: simp_thms)
qed


end
